theory Spec2Isabelle
  imports Main "HOL-Library.AList"
begin

section \<open>The socket.io user gateway (src/socket.io/user.js)\<close>

text \<open>
  The module attaches asynchronous handlers \<open>(socket, payload) \<rightarrow> result\<close> to
  \<open>SocketUser\<close>. Each handler validates its payload, reads the session
  (\<open>socket.uid\<close>, \<open>socket.ip\<close>) and calls into other modules of the forum
  (\<open>user\<close>, \<open>api\<close>, \<open>events\<close>, \<open>db\<close>, ...). Those modules are not part of
  this file: they are a parameter of the model (the environment), and every call a
  handler makes to them is recorded, in order, with its arguments.
\<close>

subsection \<open>JavaScript values\<close>

text \<open>
  Payloads arrive deserialised from the wire: scalars and plain objects. A number is
  an integer here (user ids, counts, flags). An object is an association list from
  property names to values; an array is, for every operation the handlers use
  (truthiness, reading and writing a named property), an object too.
\<close>

datatype jsval =
    Undefined
  | Null
  | Bool bool
  | Num int
  | Str string
  | Obj "(string \<times> jsval) list"

text \<open>
  An exception is a value. \<open>new Error(msg)\<close> is \<open>Error msg\<close>; the engine's own
  \<open>TypeError\<close> (a property of \<open>undefined\<close> or \<open>null\<close>, a property written on a
  primitive in strict mode) is \<open>TypeError msg\<close>. \<open>message\<close> is \<open>err.message\<close>.
\<close>

datatype error =
    Error (message: string)
  | TypeError (message: string)

definition InvalidData :: error where
  "InvalidData = Error ''[[error:invalid-data]]''"

definition NoPrivileges :: error where
  "NoPrivileges = Error ''[[error:no-privileges]]''"

definition EmailConfirmationsDisabled :: error where
  "EmailConfirmationsDisabled = Error ''[[error:email-confirmations-are-disabled]]''"

text \<open>\<open>!v\<close> is \<open>\<not> truthy v\<close>.\<close>

fun truthy :: "jsval \<Rightarrow> bool" where
  "truthy Undefined = False"
| "truthy Null = False"
| "truthy (Bool b) = b"
| "truthy (Num n) = (n \<noteq> 0)"
| "truthy (Str s) = (s \<noteq> [])"
| "truthy (Obj fs) = True"

text \<open>
  \<open>v.k\<close> and \<open>v[k]\<close>: a \<open>TypeError\<close> on \<open>undefined\<close> and \<open>null\<close>, \<open>undefined\<close> on a
  primitive (none of the names the handlers read is a property of a primitive's
  prototype) and on an object without the property. The text of the engine's message
  is not modelled; no handler reads it.
\<close>

fun get_prop :: "jsval \<Rightarrow> string \<Rightarrow> error + jsval" where
  "get_prop Undefined k = Inl (TypeError ''Cannot read properties of undefined'')"
| "get_prop Null k = Inl (TypeError ''Cannot read properties of null'')"
| "get_prop (Obj fs) k = Inr (case map_of fs k of None \<Rightarrow> Undefined | Some v \<Rightarrow> v)"
| "get_prop v k = Inr Undefined"

text \<open>
  \<open>v.k = x\<close> under \<open>'use strict'\<close> (line 1 of the file): only an object takes the
  property; \<open>undefined\<close>, \<open>null\<close> and the primitives raise a \<open>TypeError\<close>. The caller's
  object is mutated in place; the model returns the object after the write.
\<close>

fun set_prop :: "jsval \<Rightarrow> string \<Rightarrow> jsval \<Rightarrow> error + jsval" where
  "set_prop (Obj fs) k x = Inr (Obj (AList.update k x fs))"
| "set_prop Undefined k x = Inl (TypeError ''Cannot set properties of undefined'')"
| "set_prop Null k x = Inl (TypeError ''Cannot set properties of null'')"
| "set_prop v k x = Inl (TypeError ''Cannot create property on a primitive'')"

text \<open>
  Conversion of a number to a string, as \<open>+\<close> with a string operand performs it:
  decimal digits, most significant first, no padding, a minus sign for a negative
  number. (JavaScript switches to exponent notation from \<open>10^21\<close> on; user ids and
  calendar fields are far below.)
\<close>

definition digit :: "nat \<Rightarrow> char" where
  "digit d = ''0123456789'' ! d"

fun digits :: "nat \<Rightarrow> string" where
  "digits n = (if 10 \<le> n then digits (n div 10) else []) @ [digit (n mod 10)]"

declare digits.simps [simp del]

definition Number_toString :: "int \<Rightarrow> string" where
  "Number_toString i = (if i < 0 then CHR ''-'' # digits (nat (- i)) else digits (nat i))"

text \<open>
  \<open>'' + v\<close>. A plain object without \<open>toString\<close> and \<open>valueOf\<close> keys of its own
  prints as \<open>[object Object]\<close>. An array, which JavaScript prints by joining its
  elements, is not told apart from an object here and prints the same way. The only
  conversion of a value that the caller chose is the key of \<open>gdpr.check\<close> when the
  caller is an administrator.
\<close>

fun to_string :: "jsval \<Rightarrow> string" where
  "to_string Undefined = ''undefined''"
| "to_string Null = ''null''"
| "to_string (Bool b) = (if b then ''true'' else ''false'')"
| "to_string (Num n) = Number_toString n"
| "to_string (Str s) = s"
| "to_string (Obj fs) = ''[object Object]''"

subsection \<open>Session, external calls, environment\<close>

text \<open>The fields of \<open>socket\<close> the handlers read. \<open>uid = 0\<close> is a guest.\<close>

record socket =
  uid :: int
  ip :: string

text \<open>
  One constructor for each function of another module that the handlers call, with
  the arguments of the call. \<open>Sleep ms\<close> is \<open>sleep(ms)\<close>, the promisified
  \<open>setTimeout\<close> of line 4.
\<close>

datatype call =
    Api_users_deleteAccount socket jsval
  | Api_users_follow socket jsval
  | Api_users_unfollow socket jsval
  | Api_users_updateSettings socket jsval
  | Api_users_updateSetting socket jsval
  | User_email_sendValidationEmail int
  | User_reset_send jsval
  | User_reset_commit jsval jsval
  | Events_log jsval
  | Db_getObjectField string jsval
  | Plugins_hooks_fire string jsval
  | User_getUserField jsval string
  | Emailer_send string jsval jsval
  | Topics_getTotalUnread int string
  | Messaging_getUnreadCount int
  | Topics_getUnreadTids jsval
  | User_notifications_getUnreadCount int
  | Privileges_users_canEdit int jsval
  | User_isModeratorOfAnyCategory int
  | User_appendModerationNote jsval
  | User_deleteUpload int jsval jsval
  | User_setUserField int string jsval
  | User_isAdministrator int
  | Sleep nat

text \<open>\<open>new Date()\<close>: the three getters that \<open>reset.commit\<close> reads.\<close>

record date =
  getFullYear :: int
  getMonth :: int
  getDate :: int

text \<open>
  The rest of the forum, over a state \<open>'w\<close> of its own (database, mail queue,
  clock, configuration). \<open>respond\<close> answers a call: it resolves with a value or rejects
  with an error, and moves the state. \<open>meta_config\<close> is the object \<open>meta.config\<close>,
  \<open>date_now\<close> is \<open>Date.now()\<close>, \<open>new_Date\<close> is \<open>new Date()\<close>.
\<close>

record 'w env =
  respond :: "call \<Rightarrow> 'w \<Rightarrow> (error + jsval) \<times> 'w"
  meta_config :: "'w \<Rightarrow> string \<Rightarrow> jsval"
  date_now :: "'w \<Rightarrow> int"
  new_Date :: "'w \<Rightarrow> date"

text \<open>
  What a run of a handler has done so far: the forum's state, the calls issued (oldest
  first) and the deprecation warnings emitted.
\<close>

record 'w run =
  world :: 'w
  calls :: "call list"
  warnings :: "string list"

type_synonym ('w, 'a) async = "'w run \<Rightarrow> (error + 'a) \<times> 'w run"

subsection \<open>Control flow of an async function\<close>

definition resolve :: "'a \<Rightarrow> ('w, 'a) async" where
  "resolve v s = (Inr v, s)"

definition throw :: "error \<Rightarrow> ('w, 'a) async" where
  "throw e s = (Inl e, s)"

text \<open>\<open>const x = await m; f(x)\<close>: a rejection of \<open>m\<close> leaves the function.\<close>

definition await :: "('w, 'a) async \<Rightarrow> ('a \<Rightarrow> ('w, 'b) async) \<Rightarrow> ('w, 'b) async" where
  "await m f s = (case m s of (Inl e, s') \<Rightarrow> (Inl e, s') | (Inr x, s') \<Rightarrow> f x s')"

text \<open>A synchronous expression that may throw (a property read or write).\<close>

definition sync :: "error + 'a \<Rightarrow> ('w, 'a) async" where
  "sync r s = (r, s)"

text \<open>\<open>try { m } catch (err) { h(err) }\<close>.\<close>

definition try_catch :: "('w, 'a) async \<Rightarrow> (error \<Rightarrow> ('w, 'a) async) \<Rightarrow> ('w, 'a) async" where
  "try_catch m h s = (case m s of (Inl e, s') \<Rightarrow> h e s' | (Inr x, s') \<Rightarrow> (Inr x, s'))"

text \<open>A call into another module: recorded, then answered by the environment.\<close>

definition perform :: "'w env \<Rightarrow> call \<Rightarrow> ('w, jsval) async" where
  "perform env c s =
     (case respond env c (world s) of
        (r, w') \<Rightarrow> (r, s\<lparr>world := w', calls := calls s @ [c]\<rparr>))"

text \<open>
  A call whose promise is dropped (\<open>emailer.send(...)\<close> without \<open>await\<close>): it is issued,
  its outcome never reaches the handler.
\<close>

definition fire_and_forget :: "('w, jsval) async \<Rightarrow> ('w, jsval) async" where
  "fire_and_forget m s = (Inr Undefined, snd (m s))"

text \<open>
  \<open>sleep(ms)\<close>: the timer's promise cannot reject, so only the state the environment
  reaches while the time passes is kept.
\<close>

definition sleep :: "'w env \<Rightarrow> nat \<Rightarrow> ('w, jsval) async" where
  "sleep env ms = fire_and_forget (perform env (Sleep ms))"

text \<open>
  \<open>Promise.all([m1, m2, ...])\<close>: the calls are issued in the order of the array, each
  of them whatever the others answer; the result is the list of their values, or a
  rejection when one of them rejects. Which rejection wins is a matter of timing in
  JavaScript; the model takes the first in the order of the array.
\<close>

fun promise_all :: "('w, jsval) async list \<Rightarrow> ('w, jsval list) async" where
  "promise_all [] s = (Inr [], s)"
| "promise_all (m # ms) s =
     (case m s of (r, s1) \<Rightarrow>
        (case promise_all ms s1 of (rs, s2) \<Rightarrow>
           (case r of
              Inl e \<Rightarrow> (Inl e, s2)
            | Inr v \<Rightarrow> (case rs of Inl e \<Rightarrow> (Inl e, s2) | Inr vs \<Rightarrow> (Inr (v # vs), s2)))))"

text \<open>\<open>meta.config[key]\<close>, read where the handler stands.\<close>

definition config :: "'w env \<Rightarrow> string \<Rightarrow> ('w, jsval) async" where
  "config env key s = (Inr (meta_config env (world s) key), s)"

definition Date_now :: "'w env \<Rightarrow> ('w, int) async" where
  "Date_now env s = (Inr (date_now env (world s)), s)"

definition Date_new :: "'w env \<Rightarrow> ('w, date) async" where
  "Date_new env s = (Inr (new_Date env (world s)), s)"

text \<open>
  Modelled from the spec: \<open>sockets.warnDeprecated\<close> (src/socket.io/index.js, not among
  the files at hand). "Deprecation shim: procedures superseded by a newer
  request-response surface emit a DeprecationWarning identifying the replacement path
  before executing their body; the warning never blocks or alters execution."
\<close>

definition warnDeprecated :: "socket \<Rightarrow> string \<Rightarrow> ('w, jsval) async" where
  "warnDeprecated socket replacement s =
     (Inr Undefined, s\<lparr>warnings := warnings s @ [replacement]\<rparr>)"

subsection \<open>The handlers\<close>

text \<open>Lines 38-42.\<close>

definition deleteAccount :: "'w env \<Rightarrow> socket \<Rightarrow> jsval \<Rightarrow> ('w, jsval) async" where
  "deleteAccount env socket data =
     await (warnDeprecated socket ''DELETE /api/v3/users/:uid/account'') (\<lambda>_.
     await (sync (set_prop data ''uid'' (Num (uid socket)))) (\<lambda>data.
     await (perform env (Api_users_deleteAccount socket data)) (\<lambda>_.
     resolve Undefined)))"

text \<open>Lines 51-61.\<close>

definition emailConfirm :: "'w env \<Rightarrow> socket \<Rightarrow> ('w, jsval) async" where
  "emailConfirm env socket =
     (if uid socket = 0 then throw NoPrivileges
      else
        await (config env ''requireEmailConfirmation'') (\<lambda>requireEmailConfirmation.
        if \<not> truthy requireEmailConfirmation then throw EmailConfirmationsDisabled
        else perform env (User_email_sendValidationEmail (uid socket))))"

text \<open>Lines 75-83: the closure \<open>logEvent\<close> of \<open>reset.send\<close>.\<close>

definition logEvent :: "'w env \<Rightarrow> socket \<Rightarrow> jsval \<Rightarrow> string \<Rightarrow> ('w, jsval) async" where
  "logEvent env socket email text' =
     await (perform env (Events_log (Obj
       [(''type'', Str ''password-reset''),
        (''text'', Str text'),
        (''ip'', Str (ip socket)),
        (''uid'', Num (uid socket)),
        (''email'', email)]))) (\<lambda>_.
     resolve Undefined)"

definition internalErrors :: "string list" where
  "internalErrors = [''[[error:invalid-email]]'', ''[[error:reset-rate-limited]]'']"

text \<open>Lines 67-95.\<close>

definition reset_send :: "'w env \<Rightarrow> socket \<Rightarrow> jsval \<Rightarrow> ('w, jsval) async" where
  "reset_send env socket email =
     (if \<not> truthy email then throw InvalidData
      else
        await (config env ''password:disableEdit'') (\<lambda>disableEdit.
        if truthy disableEdit then throw NoPrivileges
        else
          await (try_catch
            (await (perform env (User_reset_send email)) (\<lambda>_.
             await (logEvent env socket email ''[[success:success]]'') (\<lambda>_.
             sleep env 2500)))
            (\<lambda>err.
             await (logEvent env socket email (message err)) (\<lambda>_.
             if message err \<notin> set internalErrors then throw err
             else resolve Undefined))) (\<lambda>_.
          resolve Undefined)))"

text \<open>
  Line 115: \<open>now.getFullYear() + '/' + (now.getMonth() + 1) + '/' + now.getDate()\<close>.
\<close>

definition parsedDate :: "date \<Rightarrow> string" where
  "parsedDate now =
     to_string (Num (getFullYear now)) @ ''/'' @ to_string (Num (getMonth now + 1))
       @ ''/'' @ to_string (Num (getDate now))"

text \<open>Lines 97-121. \<open>const [uid] = ...\<close> takes the first value of the three.\<close>

definition reset_commit :: "'w env \<Rightarrow> socket \<Rightarrow> jsval \<Rightarrow> ('w, jsval) async" where
  "reset_commit env socket data =
     (if \<not> truthy data then throw InvalidData
      else
        await (sync (get_prop data ''code'')) (\<lambda>code.
        if \<not> truthy code then throw InvalidData
        else
          await (sync (get_prop data ''password'')) (\<lambda>password.
          if \<not> truthy password then throw InvalidData
          else
            await (promise_all
              [perform env (Db_getObjectField ''reset:uid'' code),
               perform env (User_reset_commit code password),
               perform env (Plugins_hooks_fire ''action:password.reset''
                 (Obj [(''uid'', Num (uid socket))]))]) (\<lambda>results.
            let uid' = (case results of [] \<Rightarrow> Undefined | x # _ \<Rightarrow> x) in
            await (perform env (Events_log (Obj
              [(''type'', Str ''password-reset''),
               (''uid'', uid'),
               (''ip'', Str (ip socket))]))) (\<lambda>_.
            await (perform env (User_getUserField uid' ''username'')) (\<lambda>username.
            await (Date_new env) (\<lambda>now.
            await (fire_and_forget (perform env (Emailer_send ''reset_notify'' uid' (Obj
              [(''username'', username),
               (''date'', Str (parsedDate now)),
               (''subject'', Str ''[[email:reset.notify.subject]]'')])))) (\<lambda>_.
            resolve Undefined))))))))"

text \<open>Lines 131-163: the handlers that hand the call to \<open>api.users\<close>.\<close>

definition follow :: "'w env \<Rightarrow> socket \<Rightarrow> jsval \<Rightarrow> ('w, jsval) async" where
  "follow env socket data =
     await (warnDeprecated socket ''POST /api/v3/users/follow'') (\<lambda>_.
     await (perform env (Api_users_follow socket data)) (\<lambda>_.
     resolve Undefined))"

definition unfollow :: "'w env \<Rightarrow> socket \<Rightarrow> jsval \<Rightarrow> ('w, jsval) async" where
  "unfollow env socket data =
     await (warnDeprecated socket ''DELETE /api/v3/users/unfollow'') (\<lambda>_.
     await (perform env (Api_users_unfollow socket data)) (\<lambda>_.
     resolve Undefined))"

definition saveSettings :: "'w env \<Rightarrow> socket \<Rightarrow> jsval \<Rightarrow> ('w, jsval) async" where
  "saveSettings env socket data =
     await (warnDeprecated socket ''PUT /api/v3/users/:uid/settings'') (\<lambda>_.
     await (perform env (Api_users_updateSettings socket data)) (\<lambda>settings.
     resolve settings))"

definition setTopicSort :: "'w env \<Rightarrow> socket \<Rightarrow> jsval \<Rightarrow> ('w, jsval) async" where
  "setTopicSort env socket sort' =
     await (warnDeprecated socket ''PUT /api/v3/users/:uid/setting/topicPostSort'') (\<lambda>_.
     await (perform env (Api_users_updateSetting socket (Obj
       [(''uid'', Num (uid socket)),
        (''setting'', Str ''topicPostSort''),
        (''value'', sort')]))) (\<lambda>_.
     resolve Undefined))"

definition setCategorySort :: "'w env \<Rightarrow> socket \<Rightarrow> jsval \<Rightarrow> ('w, jsval) async" where
  "setCategorySort env socket sort' =
     await (warnDeprecated socket ''PUT /api/v3/users/:uid/setting/categoryTopicSort'') (\<lambda>_.
     await (perform env (Api_users_updateSetting socket (Obj
       [(''uid'', Num (uid socket)),
        (''setting'', Str ''categoryTopicSort''),
        (''value'', sort')]))) (\<lambda>_.
     resolve Undefined))"

text \<open>Lines 165-177.\<close>

definition getUnreadCount :: "'w env \<Rightarrow> socket \<Rightarrow> ('w, jsval) async" where
  "getUnreadCount env socket =
     (if uid socket = 0 then resolve (Num 0)
      else perform env (Topics_getTotalUnread (uid socket) ''''))"

definition getUnreadChatCount :: "'w env \<Rightarrow> socket \<Rightarrow> ('w, jsval) async" where
  "getUnreadChatCount env socket =
     (if uid socket = 0 then resolve (Num 0)
      else perform env (Messaging_getUnreadCount (uid socket)))"

text \<open>
  Modelled from the spec: \<open>utils.promiseParallel\<close> (src/utils.js, not among the files
  at hand). "issue ... independent queries concurrently ... Merge into one result
  object": the promises of the object literal, already started in the order of its
  keys, are joined as \<open>Promise.all\<close> joins them, and the values come back under the
  same keys.
\<close>

definition promiseParallel :: "(string \<times> ('w, jsval) async) list \<Rightarrow> ('w, jsval) async" where
  "promiseParallel obj =
     await (promise_all (map snd obj)) (\<lambda>results.
     resolve (Obj (zip (map fst obj) results)))"

text \<open>Lines 179-193.\<close>

definition getUnreadCounts :: "'w env \<Rightarrow> socket \<Rightarrow> ('w, jsval) async" where
  "getUnreadCounts env socket =
     (if uid socket = 0 then resolve (Obj [])
      else
        await (promiseParallel
          [(''unreadCounts'', perform env (Topics_getUnreadTids (Obj
              [(''uid'', Num (uid socket)), (''count'', Bool True)]))),
           (''unreadChatCount'', perform env (Messaging_getUnreadCount (uid socket))),
           (''unreadNotificationCount'',
              perform env (User_notifications_getUnreadCount (uid socket)))]) (\<lambda>results.
        await (sync (get_prop results ''unreadCounts'')) (\<lambda>unreadCounts.
        await (sync (get_prop unreadCounts '''')) (\<lambda>total.
        await (sync (set_prop results ''unreadTopicCount'' total)) (\<lambda>results.
        await (sync (get_prop results ''unreadCounts'')) (\<lambda>unreadCounts.
        await (sync (get_prop unreadCounts ''new'')) (\<lambda>new.
        await (sync (set_prop results ''unreadNewTopicCount'' new)) (\<lambda>results.
        await (sync (get_prop results ''unreadCounts'')) (\<lambda>unreadCounts.
        await (sync (get_prop unreadCounts ''watched'')) (\<lambda>watched.
        await (sync (set_prop results ''unreadWatchedTopicCount'' watched)) (\<lambda>results.
        await (sync (get_prop results ''unreadCounts'')) (\<lambda>unreadCounts.
        await (sync (get_prop unreadCounts ''unreplied'')) (\<lambda>unreplied.
        await (sync (set_prop results ''unreadUnrepliedTopicCount'' unreplied)) (\<lambda>results.
        resolve results))))))))))))))"

text \<open>Lines 207-225.\<close>

definition setModerationNote :: "'w env \<Rightarrow> socket \<Rightarrow> jsval \<Rightarrow> ('w, jsval) async" where
  "setModerationNote env socket data =
     (if uid socket = 0 \<or> \<not> truthy data then throw InvalidData
      else
        await (sync (get_prop data ''uid'')) (\<lambda>data_uid.
        if \<not> truthy data_uid then throw InvalidData
        else
          await (sync (get_prop data ''note'')) (\<lambda>data_note.
          if \<not> truthy data_note then throw InvalidData
          else
            await (Date_now env) (\<lambda>timestamp.
            let noteData = Obj
              [(''uid'', Num (uid socket)),
               (''note'', data_note),
               (''timestamp'', Num timestamp)] in
            await (perform env (Privileges_users_canEdit (uid socket) data_uid)) (\<lambda>canEdit.
            await (if \<not> truthy canEdit
                   then perform env (User_isModeratorOfAnyCategory (uid socket))
                   else resolve canEdit) (\<lambda>canEdit.
            if \<not> truthy canEdit then throw NoPrivileges
            else
              await (perform env (User_appendModerationNote (Obj
                [(''uid'', data_uid), (''noteData'', noteData)]))) (\<lambda>_.
              resolve Undefined)))))))"

text \<open>Lines 227-232.\<close>

definition deleteUpload :: "'w env \<Rightarrow> socket \<Rightarrow> jsval \<Rightarrow> ('w, jsval) async" where
  "deleteUpload env socket data =
     (if \<not> truthy data then throw InvalidData
      else
        await (sync (get_prop data ''name'')) (\<lambda>data_name.
        if \<not> truthy data_name then throw InvalidData
        else
          await (sync (get_prop data ''uid'')) (\<lambda>data_uid.
          if \<not> truthy data_uid then throw InvalidData
          else
            await (perform env (User_deleteUpload (uid socket) data_uid data_name)) (\<lambda>_.
            resolve Undefined))))"

text \<open>Lines 236-246.\<close>

definition gdpr_consent :: "'w env \<Rightarrow> socket \<Rightarrow> ('w, jsval) async" where
  "gdpr_consent env socket =
     await (perform env (User_setUserField (uid socket) ''gdpr_consent'' (Num 1))) (\<lambda>_.
     resolve Undefined)"

definition gdpr_check :: "'w env \<Rightarrow> socket \<Rightarrow> jsval \<Rightarrow> ('w, jsval) async" where
  "gdpr_check env socket data =
     await (perform env (User_isAdministrator (uid socket))) (\<lambda>isAdmin.
     await (if \<not> truthy isAdmin then sync (set_prop data ''uid'' (Num (uid socket)))
            else resolve data) (\<lambda>data.
     await (sync (get_prop data ''uid'')) (\<lambda>data_uid.
     perform env (Db_getObjectField (''user:'' @ to_string data_uid) (Str ''gdpr_consent'')))))"

subsection \<open>A small forum to run the handlers on\<close>

text \<open>
  A concrete environment for evaluating the handlers: user 1 is the administrator,
  user 2 moderates a category, user 7 is the member alice (who has given her consent
  and holds the reset code \<open>c0ffee\<close>), user 8 is another member. A reset mail can be
  issued for alice; bob has just asked for one, carol's mail cannot be handed to the
  mailer, and no other address is known. The state counts the
  calls answered and holds the two configuration switches and the health of the event
  log's storage. The date is 7 March 2021.
\<close>

record forum =
  ticks :: nat
  confirm_emails :: bool
  edit_disabled :: bool
  log_down :: bool

definition forum_respond :: "call \<Rightarrow> forum \<Rightarrow> (error + jsval) \<times> forum" where
  "forum_respond c w =
     (case c of
        User_reset_send email \<Rightarrow>
          if email = Str ''alice@example.org'' then Inr Undefined
          else if email = Str ''bob@example.org'' then Inl (Error ''[[error:reset-rate-limited]]'')
          else if email = Str ''carol@example.org'' then Inl (Error ''[[error:sendmail-not-found]]'')
          else Inl (Error ''[[error:invalid-email]]'')
      | User_reset_commit code password \<Rightarrow>
          if code = Str ''c0ffee'' then Inr Undefined
          else Inl (Error ''[[error:reset-code-not-valid]]'')
      | Events_log entry \<Rightarrow>
          if log_down w then Inl (Error ''[[error:db-unavailable]]'') else Inr Undefined
      | Db_getObjectField key field \<Rightarrow>
          if key = ''reset:uid'' \<and> field = Str ''c0ffee'' then Inr (Num 7)
          else if key = ''user:7'' \<and> field = Str ''gdpr_consent'' then Inr (Num 1)
          else Inr Null
      | User_getUserField u field \<Rightarrow>
          if u = Num 7 \<and> field = ''username'' then Inr (Str ''alice'') else Inr Null
      | Topics_getTotalUnread u filter' \<Rightarrow> Inr (Num 5)
      | Topics_getUnreadTids params \<Rightarrow>
          Inr (Obj [('''', Num 5), (''new'', Num 2), (''watched'', Num 1), (''unreplied'', Num 3)])
      | Messaging_getUnreadCount u \<Rightarrow> Inr (Num 4)
      | User_notifications_getUnreadCount u \<Rightarrow> Inr (Num 6)
      | Privileges_users_canEdit u target \<Rightarrow> Inr (Bool (u = 1 \<or> target = Num u))
      | User_isModeratorOfAnyCategory u \<Rightarrow> Inr (Bool (u = 2))
      | User_isAdministrator u \<Rightarrow> Inr (Bool (u = 1))
      | _ \<Rightarrow> Inr Undefined,
      w\<lparr>ticks := Suc (ticks w)\<rparr>)"

definition forum_config :: "forum \<Rightarrow> string \<Rightarrow> jsval" where
  "forum_config w key =
     (if key = ''requireEmailConfirmation'' then Num (if confirm_emails w then 1 else 0)
      else if key = ''password:disableEdit'' then Num (if edit_disabled w then 1 else 0)
      else Undefined)"

definition forum_env :: "forum env" where
  "forum_env =
     \<lparr>respond = forum_respond,
      meta_config = forum_config,
      date_now = (\<lambda>w. 1615100000000 + int (ticks w)),
      new_Date = (\<lambda>w. \<lparr>getFullYear = 2021, getMonth = 2, getDate = 7\<rparr>)\<rparr>"

definition forum_start :: "forum run" where
  "forum_start =
     \<lparr>world = \<lparr>ticks = 0, confirm_emails = True, edit_disabled = False, log_down = False\<rparr>,
      calls = [],
      warnings = []\<rparr>"

text \<open>The same forum while the storage of the event log is down.\<close>

definition forum_log_down :: "forum run" where
  "forum_log_down = forum_start\<lparr>world := (world forum_start)\<lparr>log_down := True\<rparr>\<rparr>"

definition guest :: socket where
  "guest = \<lparr>uid = 0, ip = ''203.0.113.9''\<rparr>"

definition member :: "int \<Rightarrow> socket" where
  "member u = \<lparr>uid = u, ip = ''198.51.100.4''\<rparr>"

section \<open>Properties of the handlers\<close>

text \<open>The definitions a proof unfolds to run a handler, and those of the small forum.\<close>

lemmas flow = resolve_def throw_def await_def sync_def try_catch_def perform_def
  fire_and_forget_def sleep_def config_def Date_now_def warnDeprecated_def

lemmas forum = forum_env_def forum_respond_def forum_config_def forum_start_def
  guest_def member_def

subsection \<open>Validation of \<open>reset.send\<close>\<close>

text \<open>
  C8. \<open>reset.send\<close> with an absent (falsy) email fails with \<open>InvalidData\<close>, and with
  password editing disabled in the configuration it fails with \<open>NoPrivileges\<close>. In both
  cases the run is returned as it was handed in: no call was issued (no issuance
  request, no audit entry, no cooldown), no warning emitted, the forum's state is
  untouched.
\<close>

theorem reset_send_rejects_before_any_effect:
  "(\<not> truthy email \<longrightarrow> reset_send env socket email s = (Inl InvalidData, s)) \<and>
   (truthy email \<and> truthy (meta_config env (world s) ''password:disableEdit'') \<longrightarrow>
      reset_send env socket email s = (Inl NoPrivileges, s))"
  by (simp add: reset_send_def throw_def await_def config_def)

text \<open>
  The two rejections on the small forum: no email at all, and a valid email while
  password editing is switched off.
\<close>

theorem reset_send_rejects_before_any_effect_witness:
  "reset_send forum_env guest Undefined forum_start = (Inl InvalidData, forum_start) \<and>
   reset_send forum_env guest (Str ''alice@example.org'')
       (forum_start\<lparr>world := (world forum_start)\<lparr>edit_disabled := True\<rparr>\<rparr>)
     = (Inl NoPrivileges, forum_start\<lparr>world := (world forum_start)\<lparr>edit_disabled := True\<rparr>\<rparr>)"
  using reset_send_rejects_before_any_effect
      [where email = Undefined and env = forum_env and socket = guest and s = forum_start]
    reset_send_rejects_before_any_effect
      [where email = "Str ''alice@example.org''" and env = forum_env and socket = guest
         and s = "forum_start\<lparr>world := (world forum_start)\<lparr>edit_disabled := True\<rparr>\<rparr>"]
  by (simp add: forum)

subsection \<open>The two gates of \<open>emailConfirm\<close>\<close>

text \<open>
  C9. \<open>emailConfirm\<close> fails with \<open>NoPrivileges\<close> for a guest, whatever the
  configuration says (the session is checked first), and with
  \<open>EmailConfirmationsDisabled\<close> for a signed-in user when \<open>requireEmailConfirmation\<close>
  is off; both leave the run untouched. When both checks pass the handler is the call
  to \<open>user.email.sendValidationEmail\<close>, and that call is issued in no other case.
\<close>

theorem emailConfirm_gates:
  "(uid socket = 0 \<longrightarrow> emailConfirm env socket s = (Inl NoPrivileges, s)) \<and>
   (uid socket \<noteq> 0 \<and> \<not> truthy (meta_config env (world s) ''requireEmailConfirmation'') \<longrightarrow>
      emailConfirm env socket s = (Inl EmailConfirmationsDisabled, s)) \<and>
   (uid socket \<noteq> 0 \<and> truthy (meta_config env (world s) ''requireEmailConfirmation'') \<longrightarrow>
      emailConfirm env socket s = perform env (User_email_sendValidationEmail (uid socket)) s) \<and>
   calls (snd (emailConfirm env socket s)) =
     calls s @
       (if uid socket \<noteq> 0 \<and> truthy (meta_config env (world s) ''requireEmailConfirmation'')
        then [User_email_sendValidationEmail (uid socket)] else [])"
  by (simp add: emailConfirm_def flow split: prod.splits)

text \<open>
  A guest and the member alice while confirmations are off, then alice while they are
  on.
\<close>

theorem emailConfirm_gates_witness:
  "emailConfirm forum_env guest (forum_start\<lparr>world := (world forum_start)\<lparr>confirm_emails := False\<rparr>\<rparr>)
     = (Inl NoPrivileges, forum_start\<lparr>world := (world forum_start)\<lparr>confirm_emails := False\<rparr>\<rparr>) \<and>
   emailConfirm forum_env (member 7) (forum_start\<lparr>world := (world forum_start)\<lparr>confirm_emails := False\<rparr>\<rparr>)
     = (Inl EmailConfirmationsDisabled,
        forum_start\<lparr>world := (world forum_start)\<lparr>confirm_emails := False\<rparr>\<rparr>) \<and>
   calls (snd (emailConfirm forum_env (member 7) forum_start)) = [User_email_sendValidationEmail 7]"
  using emailConfirm_gates
      [where socket = guest and env = forum_env
         and s = "forum_start\<lparr>world := (world forum_start)\<lparr>confirm_emails := False\<rparr>\<rparr>"]
    emailConfirm_gates
      [where socket = "member 7" and env = forum_env
         and s = "forum_start\<lparr>world := (world forum_start)\<lparr>confirm_emails := False\<rparr>\<rparr>"]
    emailConfirm_gates [where socket = "member 7" and env = forum_env and s = forum_start]
  by (simp add: forum flow)

subsection \<open>\<open>deleteAccount\<close> and the payload's uid\<close>



subsection \<open>\<open>gdpr.check\<close> by a caller who is not an administrator\<close>

text \<open>
  C5. When \<open>user.isAdministrator\<close> answers the caller's uid with a falsy value,
  \<open>gdpr.check\<close> with an object payload is exactly the read of the field
  \<open>gdpr_consent\<close> of the caller's own key (\<open>user:\<close> and the session's uid): the payload does not
  occur in it. So two runs from the same state by the same caller return the same flag
  (and leave the same trace) whatever the two payloads hold, and the only database
  read is that of the caller's own record. A payload that is not an object makes the
  write \<open>data.uid = socket.uid\<close> raise a \<open>TypeError\<close>: nothing is read, nothing is
  returned.
\<close>

theorem gdpr_check_non_admin_reads_own_flag:
  assumes "respond env (User_isAdministrator (uid socket)) (world s) = (Inr isAdmin, w)"
    and "\<not> truthy isAdmin"
  shows "gdpr_check env socket (Obj fs) s =
           perform env
             (Db_getObjectField (''user:'' @ Number_toString (uid socket)) (Str ''gdpr_consent''))
             (s\<lparr>world := w, calls := calls s @ [User_isAdministrator (uid socket)]\<rparr>) \<and>
         gdpr_check env socket (Obj fs) s = gdpr_check env socket (Obj fs') s \<and>
         ((\<forall>fs. data \<noteq> Obj fs) \<longrightarrow>
            (\<exists>e. gdpr_check env socket data s =
               (Inl (TypeError e),
                s\<lparr>world := w, calls := calls s @ [User_isAdministrator (uid socket)]\<rparr>)))"
  using assms by (cases data) (simp_all add: gdpr_check_def flow update_conv')

text \<open>
  User 8 asks for the flag of alice (uid 7), who has consented: the answer is user 8's
  own flag (\<open>null\<close>, never set), read from \<open>user:8\<close>, the same as when user 8 asks for
  uid 8. Alice herself reads 1.
\<close>

theorem gdpr_check_non_admin_reads_own_flag_witness:
  "gdpr_check forum_env (member 8) (Obj [(''uid'', Num 7)]) forum_start =
     (Inr Null,
      \<lparr>world = \<lparr>ticks = 2, confirm_emails = True, edit_disabled = False, log_down = False\<rparr>,
       calls = [User_isAdministrator 8, Db_getObjectField ''user:8'' (Str ''gdpr_consent'')],
       warnings = []\<rparr>) \<and>
   gdpr_check forum_env (member 8) (Obj [(''uid'', Num 7)]) forum_start =
     gdpr_check forum_env (member 8) (Obj [(''uid'', Num 8)]) forum_start \<and>
   fst (gdpr_check forum_env (member 7) (Obj [(''uid'', Num 7)]) forum_start) = Inr (Num 1)"
proof -
  have admin: "respond forum_env (User_isAdministrator (uid (member 8))) (world forum_start)
      = (Inr (Bool False), (world forum_start)\<lparr>ticks := 1\<rparr>)"
    by (simp add: forum)
  have no_admin: "\<not> truthy (Bool False)"
    by simp
  have own: "''user:'' @ Number_toString 8 = ''user:8''"
    by (simp add: Number_toString_def digits.simps digit_def)
  have alice: "fst (gdpr_check forum_env (member 7) (Obj [(''uid'', Num 7)]) forum_start) = Inr (Num 1)"
    by (simp add: gdpr_check_def flow forum Number_toString_def digits.simps digit_def)
  note th = gdpr_check_non_admin_reads_own_flag
      [OF admin no_admin, where fs = "[(''uid'', Num 7)]" and fs' = "[(''uid'', Num 8)]"
         and data = Undefined]
  have 1: "gdpr_check forum_env (member 8) (Obj [(''uid'', Num 7)]) forum_start =
     (Inr Null,
      \<lparr>world = \<lparr>ticks = 2, confirm_emails = True, edit_disabled = False, log_down = False\<rparr>,
       calls = [User_isAdministrator 8, Db_getObjectField ''user:8'' (Str ''gdpr_consent'')],
       warnings = []\<rparr>)"
    using th [THEN conjunct1] own by (simp add: flow forum)
  have 2: "gdpr_check forum_env (member 8) (Obj [(''uid'', Num 7)]) forum_start =
     gdpr_check forum_env (member 8) (Obj [(''uid'', Num 8)]) forum_start"
    by (rule th [THEN conjunct2, THEN conjunct1])
  show ?thesis by (intro conjI 1 2 alice)
qed

subsection \<open>The two-step authorisation of \<open>setModerationNote\<close>\<close>

text \<open>
  C6. Let a call of \<open>setModerationNote\<close> pass validation (a signed-in caller, a
  payload with a truthy \<open>uid\<close> and a truthy \<open>note\<close>), and let
  \<open>privileges.users.canEdit\<close> answer \<open>canEdit\<close>, leaving the forum in state \<open>w1\<close>.
  \<^item> If \<open>canEdit\<close> is truthy, the moderator check is not made: the handler hands one
    \<open>user.appendModerationNote\<close> to the forum in state \<open>w1\<close>. The run it returns holds
    the state that the append leaves, the two calls (the lookup, the append) and, as
    its result, the append's error or \<open>undefined\<close>.
  \<^item> If it is falsy, \<open>user.isModeratorOfAnyCategory\<close> is asked next. When its answer
    is truthy the note is appended in the same way, once, after the two lookups;
    when it is falsy the call fails with \<open>NoPrivileges\<close> after those two lookups and
    nothing is appended.
  The note appended carries the caller's uid, the payload's text and \<open>Date.now()\<close> as
  read before the first lookup.
\<close>

theorem setModerationNote_two_step_check:
  assumes "uid socket \<noteq> 0" and "truthy data"
    and "get_prop data ''uid'' = Inr target" and "truthy target"
    and "get_prop data ''note'' = Inr note" and "truthy note"
    and "respond env (Privileges_users_canEdit (uid socket) target) (world s) = (Inr canEdit, w1)"
  shows "(truthy canEdit \<longrightarrow>
            setModerationNote env socket data s =
              (case respond env
                 (User_appendModerationNote (Obj
                    [(''uid'', target),
                     (''noteData'', Obj
                        [(''uid'', Num (uid socket)),
                         (''note'', note),
                         (''timestamp'', Num (date_now env (world s)))])])) w1 of
                 (r, w) \<Rightarrow>
                   (case r of Inl e \<Rightarrow> Inl e | Inr x \<Rightarrow> Inr Undefined,
                    s\<lparr>world := w,
                      calls := calls s @
                        [Privileges_users_canEdit (uid socket) target,
                         User_appendModerationNote (Obj
                           [(''uid'', target),
                            (''noteData'', Obj
                               [(''uid'', Num (uid socket)),
                                (''note'', note),
                                (''timestamp'', Num (date_now env (world s)))])])]\<rparr>))) \<and>
         (\<not> truthy canEdit \<and>
          respond env (User_isModeratorOfAnyCategory (uid socket)) w1 = (Inr isMod, w2) \<and>
          truthy isMod \<longrightarrow>
            setModerationNote env socket data s =
              (case respond env
                 (User_appendModerationNote (Obj
                    [(''uid'', target),
                     (''noteData'', Obj
                        [(''uid'', Num (uid socket)),
                         (''note'', note),
                         (''timestamp'', Num (date_now env (world s)))])])) w2 of
                 (r, w) \<Rightarrow>
                   (case r of Inl e \<Rightarrow> Inl e | Inr x \<Rightarrow> Inr Undefined,
                    s\<lparr>world := w,
                      calls := calls s @
                        [Privileges_users_canEdit (uid socket) target,
                         User_isModeratorOfAnyCategory (uid socket),
                         User_appendModerationNote (Obj
                           [(''uid'', target),
                            (''noteData'', Obj
                               [(''uid'', Num (uid socket)),
                                (''note'', note),
                                (''timestamp'', Num (date_now env (world s)))])])]\<rparr>))) \<and>
         (\<not> truthy canEdit \<and>
          respond env (User_isModeratorOfAnyCategory (uid socket)) w1 = (Inr isMod, w2) \<and>
          \<not> truthy isMod \<longrightarrow>
            setModerationNote env socket data s =
              (Inl NoPrivileges,
               s\<lparr>world := w2,
                 calls := calls s @
                   [Privileges_users_canEdit (uid socket) target,
                    User_isModeratorOfAnyCategory (uid socket)]\<rparr>))"
  using assms by (simp add: setModerationNote_def flow Let_def split: prod.splits sum.splits)

text \<open>
  A note on user 8, written by the administrator (uid 1, allowed by the first check),
  by the moderator (uid 2, allowed by the second) and by alice (uid 7, allowed by
  neither). The forum answers the append in its second and in its third step.
\<close>

theorem setModerationNote_two_step_check_witness:
  "setModerationNote forum_env (member 1)
      (Obj [(''uid'', Num 8), (''note'', Str ''spam'')]) forum_start =
     (Inr Undefined,
      \<lparr>world = \<lparr>ticks = 2, confirm_emails = True, edit_disabled = False, log_down = False\<rparr>,
       calls =
         [Privileges_users_canEdit 1 (Num 8),
          User_appendModerationNote (Obj
            [(''uid'', Num 8),
             (''noteData'', Obj
                [(''uid'', Num 1), (''note'', Str ''spam''),
                 (''timestamp'', Num 1615100000000)])])],
       warnings = []\<rparr>) \<and>
   setModerationNote forum_env (member 2)
      (Obj [(''uid'', Num 8), (''note'', Str ''spam'')]) forum_start =
     (Inr Undefined,
      \<lparr>world = \<lparr>ticks = 3, confirm_emails = True, edit_disabled = False, log_down = False\<rparr>,
       calls =
         [Privileges_users_canEdit 2 (Num 8),
          User_isModeratorOfAnyCategory 2,
          User_appendModerationNote (Obj
            [(''uid'', Num 8),
             (''noteData'', Obj
                [(''uid'', Num 2), (''note'', Str ''spam''),
                 (''timestamp'', Num 1615100000000)])])],
       warnings = []\<rparr>) \<and>
   setModerationNote forum_env (member 7)
      (Obj [(''uid'', Num 8), (''note'', Str ''spam'')]) forum_start =
     (Inl NoPrivileges,
      \<lparr>world = \<lparr>ticks = 2, confirm_emails = True, edit_disabled = False, log_down = False\<rparr>,
       calls = [Privileges_users_canEdit 7 (Num 8), User_isModeratorOfAnyCategory 7],
       warnings = []\<rparr>)"
proof -
  let ?data = "Obj [(''uid'', Num 8), (''note'', Str ''spam'')]"
  have v: "truthy ?data" "get_prop ?data ''uid'' = Inr (Num 8)" "truthy (Num 8)"
    "get_prop ?data ''note'' = Inr (Str ''spam'')" "truthy (Str ''spam'')"
    by simp_all
  have a1: "uid (member 1) \<noteq> 0"
    "respond forum_env (Privileges_users_canEdit (uid (member 1)) (Num 8)) (world forum_start)
       = (Inr (Bool True), (world forum_start)\<lparr>ticks := 1\<rparr>)"
    by (simp_all add: forum)
  have a2: "uid (member 2) \<noteq> 0"
    "respond forum_env (Privileges_users_canEdit (uid (member 2)) (Num 8)) (world forum_start)
       = (Inr (Bool False), (world forum_start)\<lparr>ticks := 1\<rparr>)"
    by (simp_all add: forum)
  have m2: "respond forum_env (User_isModeratorOfAnyCategory (uid (member 2)))
       ((world forum_start)\<lparr>ticks := 1\<rparr>) = (Inr (Bool True), (world forum_start)\<lparr>ticks := 2\<rparr>)"
    by (simp add: forum)
  have a7: "uid (member 7) \<noteq> 0"
    "respond forum_env (Privileges_users_canEdit (uid (member 7)) (Num 8)) (world forum_start)
       = (Inr (Bool False), (world forum_start)\<lparr>ticks := 1\<rparr>)"
    by (simp_all add: forum)
  have m7: "respond forum_env (User_isModeratorOfAnyCategory (uid (member 7)))
       ((world forum_start)\<lparr>ticks := 1\<rparr>) = (Inr (Bool False), (world forum_start)\<lparr>ticks := 2\<rparr>)"
    by (simp add: forum)
  have 1: "setModerationNote forum_env (member 1) ?data forum_start =
     (Inr Undefined,
      \<lparr>world = \<lparr>ticks = 2, confirm_emails = True, edit_disabled = False, log_down = False\<rparr>,
       calls =
         [Privileges_users_canEdit 1 (Num 8),
          User_appendModerationNote (Obj
            [(''uid'', Num 8),
             (''noteData'', Obj
                [(''uid'', Num 1), (''note'', Str ''spam''),
                 (''timestamp'', Num 1615100000000)])])],
       warnings = []\<rparr>)"
    using setModerationNote_two_step_check [OF a1(1) v a1(2), THEN conjunct1]
    by (simp add: forum)
  have 2: "setModerationNote forum_env (member 2) ?data forum_start =
     (Inr Undefined,
      \<lparr>world = \<lparr>ticks = 3, confirm_emails = True, edit_disabled = False, log_down = False\<rparr>,
       calls =
         [Privileges_users_canEdit 2 (Num 8),
          User_isModeratorOfAnyCategory 2,
          User_appendModerationNote (Obj
            [(''uid'', Num 8),
             (''noteData'', Obj
                [(''uid'', Num 2), (''note'', Str ''spam''),
                 (''timestamp'', Num 1615100000000)])])],
       warnings = []\<rparr>)"
    using setModerationNote_two_step_check
        [OF a2(1) v a2(2), where isMod = "Bool True" and ?w2.0 = "(world forum_start)\<lparr>ticks := 2\<rparr>",
          THEN conjunct2, THEN conjunct1]
      m2
    by (simp add: forum)
  have 3: "setModerationNote forum_env (member 7) ?data forum_start =
     (Inl NoPrivileges,
      \<lparr>world = \<lparr>ticks = 2, confirm_emails = True, edit_disabled = False, log_down = False\<rparr>,
       calls = [Privileges_users_canEdit 7 (Num 8), User_isModeratorOfAnyCategory 7],
       warnings = []\<rparr>)"
    using setModerationNote_two_step_check
        [OF a7(1) v a7(2), where isMod = "Bool False" and ?w2.0 = "(world forum_start)\<lparr>ticks := 2\<rparr>",
          THEN conjunct2, THEN conjunct2]
      m7
    by (simp add: forum)
  show ?thesis by (intro conjI 1 2 3)
qed

subsection \<open>The bundle of \<open>getUnreadCounts\<close>\<close>

lemma calls_getUnreadCounts:
  "uid socket \<noteq> 0 \<Longrightarrow>
      calls (snd (getUnreadCounts env socket s)) =
        calls s @
          [Topics_getUnreadTids (Obj [(''uid'', Num (uid socket)), (''count'', Bool True)]),
           Messaging_getUnreadCount (uid socket),
           User_notifications_getUnreadCount (uid socket)]"
  by (simp add: getUnreadCounts_def promiseParallel_def flow split: prod.splits sum.splits)

lemma bundle_getUnreadCounts:
  assumes "uid socket \<noteq> 0"
    and "respond env (Topics_getUnreadTids (Obj [(''uid'', Num (uid socket)), (''count'', Bool True)]))
      (world s) = (Inr unreadCounts, w1)"
    and "respond env (Messaging_getUnreadCount (uid socket)) w1 = (Inr chat, w2)"
    and "respond env (User_notifications_getUnreadCount (uid socket)) w2 = (Inr notifications, w3)"
    and "unreadCounts \<noteq> Undefined" and "unreadCounts \<noteq> Null"
  shows "\<exists>bundle. fst (getUnreadCounts env socket s) = Inr bundle \<and>
         get_prop bundle ''unreadTopicCount'' = get_prop unreadCounts '''' \<and>
         get_prop bundle ''unreadNewTopicCount'' = get_prop unreadCounts ''new'' \<and>
         get_prop bundle ''unreadWatchedTopicCount'' = get_prop unreadCounts ''watched'' \<and>
         get_prop bundle ''unreadUnrepliedTopicCount'' = get_prop unreadCounts ''unreplied'' \<and>
         get_prop bundle ''unreadChatCount'' = Inr chat \<and>
         get_prop bundle ''unreadNotificationCount'' = Inr notifications"
  using assms
  by (cases unreadCounts) (simp_all add: getUnreadCounts_def promiseParallel_def flow)

text \<open>
  C7. For a guest \<open>getUnreadCounts\<close> returns the empty object and the run is untouched:
  no query is issued. For a signed-in caller the three queries (the batched topic
  counts, the chat count, the notification count) are all issued, in that order,
  whatever any of them answers: none waits for the result of another. When the three
  resolve, the handler returns one object whose \<open>unreadTopicCount\<close>,
  \<open>unreadNewTopicCount\<close>, \<open>unreadWatchedTopicCount\<close> and \<open>unreadUnrepliedTopicCount\<close>
  are the entries \<open>''\<close>, \<open>new\<close>, \<open>watched\<close> and \<open>unreplied\<close> of the topic query's result,
  and whose \<open>unreadChatCount\<close> and \<open>unreadNotificationCount\<close> are the results of the
  other two queries.
\<close>

theorem getUnreadCounts_bundle:
  "(uid socket = 0 \<longrightarrow> getUnreadCounts env socket s = (Inr (Obj []), s)) \<and>
   (uid socket \<noteq> 0 \<longrightarrow>
      calls (snd (getUnreadCounts env socket s)) =
        calls s @
          [Topics_getUnreadTids (Obj [(''uid'', Num (uid socket)), (''count'', Bool True)]),
           Messaging_getUnreadCount (uid socket),
           User_notifications_getUnreadCount (uid socket)]) \<and>
   (uid socket \<noteq> 0 \<and>
    respond env (Topics_getUnreadTids (Obj [(''uid'', Num (uid socket)), (''count'', Bool True)]))
      (world s) = (Inr unreadCounts, w1) \<and>
    respond env (Messaging_getUnreadCount (uid socket)) w1 = (Inr chat, w2) \<and>
    respond env (User_notifications_getUnreadCount (uid socket)) w2 = (Inr notifications, w3) \<and>
    unreadCounts \<noteq> Undefined \<and> unreadCounts \<noteq> Null \<longrightarrow>
      (\<exists>bundle. fst (getUnreadCounts env socket s) = Inr bundle \<and>
         get_prop bundle ''unreadTopicCount'' = get_prop unreadCounts '''' \<and>
         get_prop bundle ''unreadNewTopicCount'' = get_prop unreadCounts ''new'' \<and>
         get_prop bundle ''unreadWatchedTopicCount'' = get_prop unreadCounts ''watched'' \<and>
         get_prop bundle ''unreadUnrepliedTopicCount'' = get_prop unreadCounts ''unreplied'' \<and>
         get_prop bundle ''unreadChatCount'' = Inr chat \<and>
         get_prop bundle ''unreadNotificationCount'' = Inr notifications))"
proof (intro conjI impI)
  assume "uid socket = 0"
  then show "getUnreadCounts env socket s = (Inr (Obj []), s)"
    by (simp add: getUnreadCounts_def resolve_def)
next
  assume "uid socket \<noteq> 0"
  then show "calls (snd (getUnreadCounts env socket s)) =
        calls s @
          [Topics_getUnreadTids (Obj [(''uid'', Num (uid socket)), (''count'', Bool True)]),
           Messaging_getUnreadCount (uid socket),
           User_notifications_getUnreadCount (uid socket)]"
    by (rule calls_getUnreadCounts)
next
  assume "uid socket \<noteq> 0 \<and>
    respond env (Topics_getUnreadTids (Obj [(''uid'', Num (uid socket)), (''count'', Bool True)]))
      (world s) = (Inr unreadCounts, w1) \<and>
    respond env (Messaging_getUnreadCount (uid socket)) w1 = (Inr chat, w2) \<and>
    respond env (User_notifications_getUnreadCount (uid socket)) w2 = (Inr notifications, w3) \<and>
    unreadCounts \<noteq> Undefined \<and> unreadCounts \<noteq> Null"
  then show "\<exists>bundle. fst (getUnreadCounts env socket s) = Inr bundle \<and>
         get_prop bundle ''unreadTopicCount'' = get_prop unreadCounts '''' \<and>
         get_prop bundle ''unreadNewTopicCount'' = get_prop unreadCounts ''new'' \<and>
         get_prop bundle ''unreadWatchedTopicCount'' = get_prop unreadCounts ''watched'' \<and>
         get_prop bundle ''unreadUnrepliedTopicCount'' = get_prop unreadCounts ''unreplied'' \<and>
         get_prop bundle ''unreadChatCount'' = Inr chat \<and>
         get_prop bundle ''unreadNotificationCount'' = Inr notifications"
    using bundle_getUnreadCounts [of socket env s unreadCounts w1 chat w2 notifications w3]
    by blast
qed

text \<open>
  A guest gets the empty object. Alice's three queries are issued and answered
  5/2/1/3 unread topics, 4 chats and 6 notifications, and the bundle carries these
  numbers under the six names.
\<close>

theorem getUnreadCounts_bundle_witness:
  "getUnreadCounts forum_env guest forum_start = (Inr (Obj []), forum_start) \<and>
   calls (snd (getUnreadCounts forum_env (member 7) forum_start)) =
     [Topics_getUnreadTids (Obj [(''uid'', Num 7), (''count'', Bool True)]),
      Messaging_getUnreadCount 7,
      User_notifications_getUnreadCount 7] \<and>
   (\<exists>bundle. fst (getUnreadCounts forum_env (member 7) forum_start) = Inr bundle \<and>
      get_prop bundle ''unreadTopicCount'' = Inr (Num 5) \<and>
      get_prop bundle ''unreadNewTopicCount'' = Inr (Num 2) \<and>
      get_prop bundle ''unreadWatchedTopicCount'' = Inr (Num 1) \<and>
      get_prop bundle ''unreadUnrepliedTopicCount'' = Inr (Num 3) \<and>
      get_prop bundle ''unreadChatCount'' = Inr (Num 4) \<and>
      get_prop bundle ''unreadNotificationCount'' = Inr (Num 6))"
proof -
  let ?counts = "Obj [('''', Num 5), (''new'', Num 2), (''watched'', Num 1), (''unreplied'', Num 3)]"
  have q: "uid (member 7) \<noteq> 0 \<and>
    respond forum_env
      (Topics_getUnreadTids (Obj [(''uid'', Num (uid (member 7))), (''count'', Bool True)]))
      (world forum_start) = (Inr ?counts, (world forum_start)\<lparr>ticks := 1\<rparr>) \<and>
    respond forum_env (Messaging_getUnreadCount (uid (member 7))) ((world forum_start)\<lparr>ticks := 1\<rparr>)
      = (Inr (Num 4), (world forum_start)\<lparr>ticks := 2\<rparr>) \<and>
    respond forum_env (User_notifications_getUnreadCount (uid (member 7)))
      ((world forum_start)\<lparr>ticks := 2\<rparr>) = (Inr (Num 6), (world forum_start)\<lparr>ticks := 3\<rparr>) \<and>
    ?counts \<noteq> Undefined \<and> ?counts \<noteq> Null"
    by (simp add: forum)
  have g: "uid guest = 0" and m: "uid (member 7) \<noteq> 0"
    by (simp_all add: forum)
  note anonymous = getUnreadCounts_bundle
      [where socket = guest and env = forum_env and s = forum_start,
        THEN conjunct1, rule_format, OF g]
  note fan_out = getUnreadCounts_bundle
      [where socket = "member 7" and env = forum_env and s = forum_start,
        THEN conjunct2, THEN conjunct1, rule_format, OF m]
  note merged = getUnreadCounts_bundle
      [where socket = "member 7" and env = forum_env and s = forum_start,
        THEN conjunct2, THEN conjunct2, rule_format, OF q]
  show ?thesis
    using anonymous fan_out merged by (simp add: member_def forum_start_def)
qed

subsection \<open>\<open>reset.commit\<close>: validation, audit entry, notification\<close>

text \<open>Decimal rendering never pads: a positive number does not start with the digit 0.\<close>

lemma digits_not_Nil: "digits n \<noteq> []"
  by (subst digits.simps) simp

lemma digit_positive: "0 < d \<Longrightarrow> d < 10 \<Longrightarrow> digit d \<noteq> CHR ''0''"
proof -
  assume "0 < d" "d < 10"
  then have "d \<in> {1, 2, 3, 4, 5, 6, 7, 8, 9}" by auto
  then show ?thesis by (auto simp: digit_def)
qed

lemma hd_digits: "0 < n \<Longrightarrow> hd (digits n) \<noteq> CHR ''0''"
proof (induction n rule: digits.induct)
  case (1 n)
  show ?case
  proof (cases "10 \<le> n")
    case True
    then have "0 < n div 10" by simp
    with 1 True have "hd (digits (n div 10)) \<noteq> CHR ''0''" by simp
    moreover have "digits n = digits (n div 10) @ [digit (n mod 10)]"
      using True by (subst digits.simps) simp
    ultimately show ?thesis by (simp add: digits_not_Nil)
  next
    case False
    then have "digits n = [digit n]" by (subst digits.simps) simp
    with False 1 show ?thesis by (simp add: digit_positive)
  qed
qed

lemma Number_toString_no_padding:
  "0 < n \<Longrightarrow> Number_toString n \<noteq> [] \<and> hd (Number_toString n) \<noteq> CHR ''0''"
  by (simp add: Number_toString_def digits_not_Nil hd_digits)

lemma promise_all_three:
  "promise_all [perform env a, perform env b, perform env c] s =
     (case respond env a (world s) of (ra, wa) \<Rightarrow>
      case respond env b wa of (rb, wb) \<Rightarrow>
      case respond env c wb of (rc, wc) \<Rightarrow>
        (case ra of Inl e \<Rightarrow> Inl e
         | Inr va \<Rightarrow> (case rb of Inl e \<Rightarrow> Inl e
            | Inr vb \<Rightarrow> (case rc of Inl e \<Rightarrow> Inl e | Inr vc \<Rightarrow> Inr [va, vb, vc])),
         s\<lparr>world := wc, calls := calls s @ [a, b, c]\<rparr>))"
  by (simp add: perform_def split: prod.splits sum.splits)

lemma reset_commit_run:
  assumes "truthy data \<and> get_prop data ''code'' = Inr code \<and> truthy code \<and>
           get_prop data ''password'' = Inr password \<and> truthy password \<and>
           respond env (Db_getObjectField ''reset:uid'' code) (world s) = (Inr uid', w1) \<and>
           respond env (User_reset_commit code password) w1 = (Inr x2, w2) \<and>
           respond env
             (Plugins_hooks_fire ''action:password.reset'' (Obj [(''uid'', Num (uid socket))])) w2
             = (Inr x3, w3) \<and>
           respond env (Events_log (Obj
              [(''type'', Str ''password-reset''), (''uid'', uid'), (''ip'', Str (ip socket))])) w3
             = (Inr x4, w4) \<and>
           respond env (User_getUserField uid' ''username'') w4 = (Inr username, w5) \<and>
           respond env (Emailer_send ''reset_notify'' uid' (Obj
              [(''username'', username),
               (''date'', Str (parsedDate (new_Date env w5))),
               (''subject'', Str ''[[email:reset.notify.subject]]'')])) w5
             = (x6, w6)"
  shows "reset_commit env socket data s =
           (Inr Undefined,
            s\<lparr>world := w6,
              calls := calls s @
                [Db_getObjectField ''reset:uid'' code,
                 User_reset_commit code password,
                 Plugins_hooks_fire ''action:password.reset'' (Obj [(''uid'', Num (uid socket))]),
                 Events_log (Obj
                   [(''type'', Str ''password-reset''), (''uid'', uid'), (''ip'', Str (ip socket))]),
                 User_getUserField uid' ''username'',
                 Emailer_send ''reset_notify'' uid' (Obj
                   [(''username'', username),
                    (''date'', Str (parsedDate (new_Date env w5))),
                    (''subject'', Str ''[[email:reset.notify.subject]]'')])]\<rparr>)"
  using assms
  by (simp add: reset_commit_def promise_all_three flow Date_new_def del: promise_all.simps)

lemma reset_commit_success:
  assumes "fst (reset_commit env socket data s) = Inr r"
  shows "\<exists>code password uid' username w1 w2 w3 w4 w5 w6 x2 x3 x4 x6.
           get_prop data ''code'' = Inr code \<and> get_prop data ''password'' = Inr password \<and>
           respond env (Db_getObjectField ''reset:uid'' code) (world s) = (Inr uid', w1) \<and>
           respond env (User_reset_commit code password) w1 = (Inr x2, w2) \<and>
           respond env
             (Plugins_hooks_fire ''action:password.reset'' (Obj [(''uid'', Num (uid socket))])) w2
             = (Inr x3, w3) \<and>
           respond env (Events_log (Obj
              [(''type'', Str ''password-reset''), (''uid'', uid'), (''ip'', Str (ip socket))])) w3
             = (Inr x4, w4) \<and>
           respond env (User_getUserField uid' ''username'') w4 = (Inr username, w5) \<and>
           respond env (Emailer_send ''reset_notify'' uid' (Obj
              [(''username'', username),
               (''date'', Str (parsedDate (new_Date env w5))),
               (''subject'', Str ''[[email:reset.notify.subject]]'')])) w5
             = (x6, w6) \<and>
           reset_commit env socket data s =
             (Inr Undefined,
              s\<lparr>world := w6,
                calls := calls s @
                  [Db_getObjectField ''reset:uid'' code,
                   User_reset_commit code password,
                   Plugins_hooks_fire ''action:password.reset'' (Obj [(''uid'', Num (uid socket))]),
                   Events_log (Obj
                     [(''type'', Str ''password-reset''), (''uid'', uid'), (''ip'', Str (ip socket))]),
                   User_getUserField uid' ''username'',
                   Emailer_send ''reset_notify'' uid' (Obj
                     [(''username'', username),
                      (''date'', Str (parsedDate (new_Date env w5))),
                      (''subject'', Str ''[[email:reset.notify.subject]]'')])]\<rparr>)"
proof -
  from assms have d: "truthy data"
    by (auto simp: reset_commit_def throw_def split: if_splits)
  then obtain code password where
    c: "get_prop data ''code'' = Inr code" and p: "get_prop data ''password'' = Inr password"
    by (cases data) auto
  from assms d c p have tc: "truthy code" and tp: "truthy password"
    by (auto simp: reset_commit_def throw_def await_def sync_def split: if_splits)
  obtain r1 w1 where 1: "respond env (Db_getObjectField ''reset:uid'' code) (world s) = (r1, w1)"
    by fastforce
  obtain r2 w2 where 2: "respond env (User_reset_commit code password) w1 = (r2, w2)"
    by fastforce
  obtain r3 w3 where 3: "respond env
      (Plugins_hooks_fire ''action:password.reset'' (Obj [(''uid'', Num (uid socket))])) w2 = (r3, w3)"
    by fastforce
  note start = d c p tc tp 1 2 3
  from assms start obtain uid' x2 x3 where r: "r1 = Inr uid'" "r2 = Inr x2" "r3 = Inr x3"
    by (cases r1; cases r2; cases r3)
      (simp_all add: reset_commit_def promise_all_three throw_def await_def sync_def
        del: promise_all.simps)
  obtain r4 w4 where 4: "respond env (Events_log (Obj
          [(''type'', Str ''password-reset''), (''uid'', uid'), (''ip'', Str (ip socket))])) w3
         = (r4, w4)"
    by fastforce
  from assms start r 4 obtain x4 where r4: "r4 = Inr x4"
    by (cases r4)
      (simp_all add: reset_commit_def promise_all_three throw_def await_def sync_def perform_def
        del: promise_all.simps)
  obtain r5 w5 where 5: "respond env (User_getUserField uid' ''username'') w4 = (r5, w5)"
    by fastforce
  from assms start r 4 r4 5 obtain username where r5: "r5 = Inr username"
    by (cases r5)
      (simp_all add: reset_commit_def promise_all_three throw_def await_def sync_def perform_def
        del: promise_all.simps)
  obtain x6 w6 where 6: "respond env (Emailer_send ''reset_notify'' uid' (Obj
       [(''username'', username),
        (''date'', Str (parsedDate (new_Date env w5))),
        (''subject'', Str ''[[email:reset.notify.subject]]'')])) w5
      = (x6, w6)"
    by fastforce
  have "reset_commit env socket data s =
          (Inr Undefined,
           s\<lparr>world := w6,
             calls := calls s @
               [Db_getObjectField ''reset:uid'' code,
                User_reset_commit code password,
                Plugins_hooks_fire ''action:password.reset'' (Obj [(''uid'', Num (uid socket))]),
                Events_log (Obj
                  [(''type'', Str ''password-reset''), (''uid'', uid'), (''ip'', Str (ip socket))]),
                User_getUserField uid' ''username'',
                Emailer_send ''reset_notify'' uid' (Obj
                  [(''username'', username),
                   (''date'', Str (parsedDate (new_Date env w5))),
                   (''subject'', Str ''[[email:reset.notify.subject]]'')])]\<rparr>)"
    using start r 4 r4 5 r5 6 by (intro reset_commit_run) simp
  with c p 1 2 3 4 5 6 r r4 r5 show ?thesis by blast
qed

text \<open>
  C4. \<open>reset.commit\<close> with no payload, or with a payload whose \<open>code\<close> or whose
  \<open>password\<close> is missing (falsy), fails with \<open>InvalidData\<close> and the run is untouched:
  none of the three joined actions has been started.

  Whenever the handler returns normally, the forum has answered six calls, each in the
  state the one before left: the lookup of the code's uid, the commit and the hook
  (the three joined ones), then one \<open>events.log\<close> whose entry holds the uid that the
  lookup returned and the caller's ip, then the lookup of that uid's \<open>username\<close>, then
  one \<open>emailer.send\<close> of \<open>reset_notify\<close> to that uid, with the username returned and
  the date of \<open>new Date()\<close> at that moment. The run returned holds the state that the
  mail call leaves (whatever that call answers), exactly these six calls, and the
  result \<open>undefined\<close>. Conversely, when the payload is valid and the first five calls
  resolve, the handler returns normally with that run.

  The date is the year, the month getter plus one and the day of the month, each in
  decimal, joined by \<open>/\<close>; the decimal rendering of a positive number does not start
  with 0.
\<close>

theorem reset_commit_validates_logs_and_notifies:
  "(\<not> truthy data \<longrightarrow> reset_commit env socket data s = (Inl InvalidData, s)) \<and>
   (truthy data \<and> get_prop data ''code'' = Inr code \<and> \<not> truthy code \<longrightarrow>
      reset_commit env socket data s = (Inl InvalidData, s)) \<and>
   (truthy data \<and> get_prop data ''password'' = Inr password \<and> \<not> truthy password \<longrightarrow>
      reset_commit env socket data s = (Inl InvalidData, s)) \<and>
   (fst (reset_commit env socket data s) = Inr r \<longrightarrow>
      (\<exists>code password uid' username w1 w2 w3 w4 w5 w6 x2 x3 x4 x6.
         get_prop data ''code'' = Inr code \<and> get_prop data ''password'' = Inr password \<and>
         respond env (Db_getObjectField ''reset:uid'' code) (world s) = (Inr uid', w1) \<and>
         respond env (User_reset_commit code password) w1 = (Inr x2, w2) \<and>
         respond env
           (Plugins_hooks_fire ''action:password.reset'' (Obj [(''uid'', Num (uid socket))])) w2
           = (Inr x3, w3) \<and>
         respond env (Events_log (Obj
            [(''type'', Str ''password-reset''), (''uid'', uid'), (''ip'', Str (ip socket))])) w3
           = (Inr x4, w4) \<and>
         respond env (User_getUserField uid' ''username'') w4 = (Inr username, w5) \<and>
         respond env (Emailer_send ''reset_notify'' uid' (Obj
            [(''username'', username),
             (''date'', Str (parsedDate (new_Date env w5))),
             (''subject'', Str ''[[email:reset.notify.subject]]'')])) w5
           = (x6, w6) \<and>
         reset_commit env socket data s =
           (Inr Undefined,
            s\<lparr>world := w6,
              calls := calls s @
                [Db_getObjectField ''reset:uid'' code,
                 User_reset_commit code password,
                 Plugins_hooks_fire ''action:password.reset'' (Obj [(''uid'', Num (uid socket))]),
                 Events_log (Obj
                   [(''type'', Str ''password-reset''), (''uid'', uid'), (''ip'', Str (ip socket))]),
                 User_getUserField uid' ''username'',
                 Emailer_send ''reset_notify'' uid' (Obj
                   [(''username'', username),
                    (''date'', Str (parsedDate (new_Date env w5))),
                    (''subject'', Str ''[[email:reset.notify.subject]]'')])]\<rparr>))) \<and>
   (truthy data \<and> get_prop data ''code'' = Inr code \<and> truthy code \<and>
    get_prop data ''password'' = Inr password \<and> truthy password \<and>
    respond env (Db_getObjectField ''reset:uid'' code) (world s) = (Inr uid', w1) \<and>
    respond env (User_reset_commit code password) w1 = (Inr x2, w2) \<and>
    respond env
      (Plugins_hooks_fire ''action:password.reset'' (Obj [(''uid'', Num (uid socket))])) w2
      = (Inr x3, w3) \<and>
    respond env (Events_log (Obj
       [(''type'', Str ''password-reset''), (''uid'', uid'), (''ip'', Str (ip socket))])) w3
      = (Inr x4, w4) \<and>
    respond env (User_getUserField uid' ''username'') w4 = (Inr username, w5) \<and>
    respond env (Emailer_send ''reset_notify'' uid' (Obj
       [(''username'', username),
        (''date'', Str (parsedDate (new_Date env w5))),
        (''subject'', Str ''[[email:reset.notify.subject]]'')])) w5
      = (x6, w6) \<longrightarrow>
      reset_commit env socket data s =
        (Inr Undefined,
         s\<lparr>world := w6,
           calls := calls s @
             [Db_getObjectField ''reset:uid'' code,
              User_reset_commit code password,
              Plugins_hooks_fire ''action:password.reset'' (Obj [(''uid'', Num (uid socket))]),
              Events_log (Obj
                [(''type'', Str ''password-reset''), (''uid'', uid'), (''ip'', Str (ip socket))]),
              User_getUserField uid' ''username'',
              Emailer_send ''reset_notify'' uid' (Obj
                [(''username'', username),
                 (''date'', Str (parsedDate (new_Date env w5))),
                 (''subject'', Str ''[[email:reset.notify.subject]]'')])]\<rparr>)) \<and>
   parsedDate now =
     Number_toString (getFullYear now) @ ''/'' @ Number_toString (getMonth now + 1) @ ''/''
       @ Number_toString (getDate now) \<and>
   (0 < n \<longrightarrow> Number_toString n \<noteq> [] \<and> hd (Number_toString n) \<noteq> CHR ''0'')"
proof (intro conjI impI)
  assume "\<not> truthy data"
  then show "reset_commit env socket data s = (Inl InvalidData, s)"
    by (simp add: reset_commit_def throw_def)
next
  assume "truthy data \<and> get_prop data ''code'' = Inr code \<and> \<not> truthy code"
  then show "reset_commit env socket data s = (Inl InvalidData, s)"
    by (simp add: reset_commit_def throw_def await_def sync_def)
next
  assume a: "truthy data \<and> get_prop data ''password'' = Inr password \<and> \<not> truthy password"
  then obtain code where "get_prop data ''code'' = Inr code"
    by (cases data) auto
  with a show "reset_commit env socket data s = (Inl InvalidData, s)"
    by (simp add: reset_commit_def throw_def await_def sync_def)
next
  assume "fst (reset_commit env socket data s) = Inr r"
  then show "\<exists>code password uid' username w1 w2 w3 w4 w5 w6 x2 x3 x4 x6.
               get_prop data ''code'' = Inr code \<and> get_prop data ''password'' = Inr password \<and>
               respond env (Db_getObjectField ''reset:uid'' code) (world s) = (Inr uid', w1) \<and>
               respond env (User_reset_commit code password) w1 = (Inr x2, w2) \<and>
               respond env
                 (Plugins_hooks_fire ''action:password.reset'' (Obj [(''uid'', Num (uid socket))])) w2
                 = (Inr x3, w3) \<and>
               respond env (Events_log (Obj
                  [(''type'', Str ''password-reset''), (''uid'', uid'), (''ip'', Str (ip socket))])) w3
                 = (Inr x4, w4) \<and>
               respond env (User_getUserField uid' ''username'') w4 = (Inr username, w5) \<and>
               respond env (Emailer_send ''reset_notify'' uid' (Obj
                  [(''username'', username),
                   (''date'', Str (parsedDate (new_Date env w5))),
                   (''subject'', Str ''[[email:reset.notify.subject]]'')])) w5
                 = (x6, w6) \<and>
               reset_commit env socket data s =
                 (Inr Undefined,
                  s\<lparr>world := w6,
                    calls := calls s @
                      [Db_getObjectField ''reset:uid'' code,
                       User_reset_commit code password,
                       Plugins_hooks_fire ''action:password.reset'' (Obj [(''uid'', Num (uid socket))]),
                       Events_log (Obj
                         [(''type'', Str ''password-reset''), (''uid'', uid'), (''ip'', Str (ip socket))]),
                       User_getUserField uid' ''username'',
                       Emailer_send ''reset_notify'' uid' (Obj
                         [(''username'', username),
                          (''date'', Str (parsedDate (new_Date env w5))),
                          (''subject'', Str ''[[email:reset.notify.subject]]'')])]\<rparr>)"
    by (rule reset_commit_success)
next
  assume "truthy data \<and> get_prop data ''code'' = Inr code \<and> truthy code \<and>
          get_prop data ''password'' = Inr password \<and> truthy password \<and>
          respond env (Db_getObjectField ''reset:uid'' code) (world s) = (Inr uid', w1) \<and>
          respond env (User_reset_commit code password) w1 = (Inr x2, w2) \<and>
          respond env
            (Plugins_hooks_fire ''action:password.reset'' (Obj [(''uid'', Num (uid socket))])) w2
            = (Inr x3, w3) \<and>
          respond env (Events_log (Obj
             [(''type'', Str ''password-reset''), (''uid'', uid'), (''ip'', Str (ip socket))])) w3
            = (Inr x4, w4) \<and>
          respond env (User_getUserField uid' ''username'') w4 = (Inr username, w5) \<and>
          respond env (Emailer_send ''reset_notify'' uid' (Obj
             [(''username'', username),
              (''date'', Str (parsedDate (new_Date env w5))),
              (''subject'', Str ''[[email:reset.notify.subject]]'')])) w5
            = (x6, w6)"
  then show "reset_commit env socket data s =
               (Inr Undefined,
                s\<lparr>world := w6,
                  calls := calls s @
                    [Db_getObjectField ''reset:uid'' code,
                     User_reset_commit code password,
                     Plugins_hooks_fire ''action:password.reset'' (Obj [(''uid'', Num (uid socket))]),
                     Events_log (Obj
                       [(''type'', Str ''password-reset''), (''uid'', uid'), (''ip'', Str (ip socket))]),
                     User_getUserField uid' ''username'',
                     Emailer_send ''reset_notify'' uid' (Obj
                       [(''username'', username),
                        (''date'', Str (parsedDate (new_Date env w5))),
                        (''subject'', Str ''[[email:reset.notify.subject]]'')])]\<rparr>)"
    by (rule reset_commit_run)
next
  show "parsedDate now =
     Number_toString (getFullYear now) @ ''/'' @ Number_toString (getMonth now + 1) @ ''/''
       @ Number_toString (getDate now)"
    by (simp add: parsedDate_def)
next
  assume "0 < n"
  then show "Number_toString n \<noteq> []" "hd (Number_toString n) \<noteq> CHR ''0''"
    by (simp_all add: Number_toString_no_padding)
qed

text \<open>
  On the small forum: no payload, a payload without code, one without password; then
  the code \<open>c0ffee\<close> of alice (uid 7), committed by a guest connection on 7 March 2021
  (month getter 2): the forum has moved six steps, with one audit entry for uid 7 and
  one mail to uid 7 dated \<open>2021/3/7\<close>.
\<close>

theorem reset_commit_validates_logs_and_notifies_witness:
  "reset_commit forum_env guest Undefined forum_start = (Inl InvalidData, forum_start) \<and>
   reset_commit forum_env guest (Obj [(''password'', Str ''hunter2'')]) forum_start
     = (Inl InvalidData, forum_start) \<and>
   reset_commit forum_env guest (Obj [(''code'', Str ''c0ffee'')]) forum_start
     = (Inl InvalidData, forum_start) \<and>
   reset_commit forum_env guest
       (Obj [(''code'', Str ''c0ffee''), (''password'', Str ''hunter2'')]) forum_start =
     (Inr Undefined,
      \<lparr>world = \<lparr>ticks = 6, confirm_emails = True, edit_disabled = False, log_down = False\<rparr>,
       calls =
         [Db_getObjectField ''reset:uid'' (Str ''c0ffee''),
          User_reset_commit (Str ''c0ffee'') (Str ''hunter2''),
          Plugins_hooks_fire ''action:password.reset'' (Obj [(''uid'', Num 0)]),
          Events_log (Obj
            [(''type'', Str ''password-reset''), (''uid'', Num 7), (''ip'', Str ''203.0.113.9'')]),
          User_getUserField (Num 7) ''username'',
          Emailer_send ''reset_notify'' (Num 7) (Obj
            [(''username'', Str ''alice''),
             (''date'', Str ''2021/3/7''),
             (''subject'', Str ''[[email:reset.notify.subject]]'')])],
       warnings = []\<rparr>) \<and>
   parsedDate \<lparr>getFullYear = 2021, getMonth = 2, getDate = 7\<rparr> = ''2021/3/7'' \<and>
   hd (Number_toString 3) \<noteq> CHR ''0''"
proof -
  let ?data = "Obj [(''code'', Str ''c0ffee''), (''password'', Str ''hunter2'')]"
  have render: "Number_toString 2021 = ''2021''" "Number_toString 3 = ''3''"
    "Number_toString 7 = ''7''"
    by (simp_all add: Number_toString_def digits.simps digit_def)
  have 1: "reset_commit forum_env guest Undefined forum_start = (Inl InvalidData, forum_start)"
    using reset_commit_validates_logs_and_notifies
      [where data = Undefined and env = forum_env and socket = guest and s = forum_start,
        THEN conjunct1]
    by simp
  have 2: "reset_commit forum_env guest (Obj [(''password'', Str ''hunter2'')]) forum_start
     = (Inl InvalidData, forum_start)"
    using reset_commit_validates_logs_and_notifies
      [where data = "Obj [(''password'', Str ''hunter2'')]" and code = Undefined
         and env = forum_env and socket = guest and s = forum_start,
        THEN conjunct2, THEN conjunct1]
    by simp
  have 3: "reset_commit forum_env guest (Obj [(''code'', Str ''c0ffee'')]) forum_start
     = (Inl InvalidData, forum_start)"
    using reset_commit_validates_logs_and_notifies
      [where data = "Obj [(''code'', Str ''c0ffee'')]" and password = Undefined
         and env = forum_env and socket = guest and s = forum_start,
        THEN conjunct2, THEN conjunct2, THEN conjunct1]
    by simp
  have answers: "truthy ?data \<and>
      get_prop ?data ''code'' = Inr (Str ''c0ffee'') \<and> truthy (Str ''c0ffee'') \<and>
      get_prop ?data ''password'' = Inr (Str ''hunter2'') \<and> truthy (Str ''hunter2'') \<and>
      respond forum_env (Db_getObjectField ''reset:uid'' (Str ''c0ffee'')) (world forum_start)
        = (Inr (Num 7), (world forum_start)\<lparr>ticks := 1\<rparr>) \<and>
      respond forum_env (User_reset_commit (Str ''c0ffee'') (Str ''hunter2''))
          ((world forum_start)\<lparr>ticks := 1\<rparr>)
        = (Inr Undefined, (world forum_start)\<lparr>ticks := 2\<rparr>) \<and>
      respond forum_env
          (Plugins_hooks_fire ''action:password.reset'' (Obj [(''uid'', Num (uid guest))]))
          ((world forum_start)\<lparr>ticks := 2\<rparr>)
        = (Inr Undefined, (world forum_start)\<lparr>ticks := 3\<rparr>) \<and>
      respond forum_env (Events_log (Obj
           [(''type'', Str ''password-reset''), (''uid'', Num 7), (''ip'', Str (ip guest))]))
          ((world forum_start)\<lparr>ticks := 3\<rparr>)
        = (Inr Undefined, (world forum_start)\<lparr>ticks := 4\<rparr>) \<and>
      respond forum_env (User_getUserField (Num 7) ''username'')
          ((world forum_start)\<lparr>ticks := 4\<rparr>)
        = (Inr (Str ''alice''), (world forum_start)\<lparr>ticks := 5\<rparr>) \<and>
      respond forum_env (Emailer_send ''reset_notify'' (Num 7) (Obj
           [(''username'', Str ''alice''),
            (''date'', Str (parsedDate (new_Date forum_env ((world forum_start)\<lparr>ticks := 5\<rparr>)))),
            (''subject'', Str ''[[email:reset.notify.subject]]'')]))
          ((world forum_start)\<lparr>ticks := 5\<rparr>)
        = (Inr Undefined, (world forum_start)\<lparr>ticks := 6\<rparr>)"
    by (simp add: forum)
  have 5: "fst (reset_commit forum_env guest ?data forum_start) = Inr Undefined"
    using reset_commit_validates_logs_and_notifies
      [where data = ?data and env = forum_env and socket = guest and s = forum_start,
        THEN conjunct2, THEN conjunct2, THEN conjunct2, THEN conjunct2, THEN conjunct1,
        rule_format, OF answers]
    by simp
  have 4: "reset_commit forum_env guest ?data forum_start =
     (Inr Undefined,
      \<lparr>world = \<lparr>ticks = 6, confirm_emails = True, edit_disabled = False, log_down = False\<rparr>,
       calls =
         [Db_getObjectField ''reset:uid'' (Str ''c0ffee''),
          User_reset_commit (Str ''c0ffee'') (Str ''hunter2''),
          Plugins_hooks_fire ''action:password.reset'' (Obj [(''uid'', Num 0)]),
          Events_log (Obj
            [(''type'', Str ''password-reset''), (''uid'', Num 7), (''ip'', Str ''203.0.113.9'')]),
          User_getUserField (Num 7) ''username'',
          Emailer_send ''reset_notify'' (Num 7) (Obj
            [(''username'', Str ''alice''),
             (''date'', Str ''2021/3/7''),
             (''subject'', Str ''[[email:reset.notify.subject]]'')])],
       warnings = []\<rparr>)"
    using reset_commit_validates_logs_and_notifies
      [where data = ?data and r = Undefined and env = forum_env and socket = guest
         and s = forum_start,
        THEN conjunct2, THEN conjunct2, THEN conjunct2, THEN conjunct1, rule_format, OF 5]
      render
    by (auto simp: forum parsedDate_def)
  have 6: "parsedDate \<lparr>getFullYear = 2021, getMonth = 2, getDate = 7\<rparr> = ''2021/3/7''"
    using reset_commit_validates_logs_and_notifies
      [where now = "\<lparr>getFullYear = 2021, getMonth = 2, getDate = 7\<rparr>",
        THEN conjunct2, THEN conjunct2, THEN conjunct2, THEN conjunct2, THEN conjunct2,
        THEN conjunct1]
      render
    by simp
  have 7: "hd (Number_toString 3) \<noteq> CHR ''0''"
    using reset_commit_validates_logs_and_notifies
      [where n = 3,
        THEN conjunct2, THEN conjunct2, THEN conjunct2, THEN conjunct2, THEN conjunct2,
        THEN conjunct2]
    by simp
  show ?thesis by (intro conjI 1 2 3 4 6 7)
qed

subsection \<open>\<open>reset.send\<close> after validation: audit entries and swallowed failures\<close>

text \<open>
  C3, as the code has it. Let \<open>reset.send\<close> pass validation.
  \<^item> When the issuance \<open>user.reset.send\<close> rejects with \<open>err\<close>, the handler issues exactly
    one more call: \<open>events.log\<close> with \<open>err.message\<close> as its text. If that call resolves,
    the handler returns normally exactly when the message is
    \<open>[[error:invalid-email]]\<close> or \<open>[[error:reset-rate-limited]]\<close>, and rejects with
    \<open>err\<close> itself otherwise.
  \<^item> When the issuance resolves and the \<open>events.log\<close> of the success text resolves,
    the handler returns normally and has issued the issuance, that one audit entry and
    the cooldown.
  The proviso that the audit call resolves is needed: the \<open>try\<close> block covers the
  success entry, and the \<open>catch\<close> block awaits its own entry before it looks at the
  message.
\<close>

theorem reset_send_audit_and_swallow:
  assumes "truthy email"
    and "\<not> truthy (meta_config env (world s) ''password:disableEdit'')"
  shows "(respond env (User_reset_send email) (world s) = (Inl err, w1) \<longrightarrow>
            calls (snd (reset_send env socket email s)) =
              calls s @
                [User_reset_send email,
                 Events_log (Obj
                   [(''type'', Str ''password-reset''),
                    (''text'', Str (message err)),
                    (''ip'', Str (ip socket)),
                    (''uid'', Num (uid socket)),
                    (''email'', email)])]) \<and>
         (respond env (User_reset_send email) (world s) = (Inl err, w1) \<and>
          respond env (Events_log (Obj
             [(''type'', Str ''password-reset''),
              (''text'', Str (message err)),
              (''ip'', Str (ip socket)),
              (''uid'', Num (uid socket)),
              (''email'', email)])) w1 = (Inr x, w2) \<longrightarrow>
            fst (reset_send env socket email s) =
              (if message err = ''[[error:invalid-email]]'' \<or>
                  message err = ''[[error:reset-rate-limited]]''
               then Inr Undefined else Inl err)) \<and>
         (respond env (User_reset_send email) (world s) = (Inr y, w1) \<and>
          respond env (Events_log (Obj
             [(''type'', Str ''password-reset''),
              (''text'', Str ''[[success:success]]''),
              (''ip'', Str (ip socket)),
              (''uid'', Num (uid socket)),
              (''email'', email)])) w1 = (Inr x, w2) \<longrightarrow>
            fst (reset_send env socket email s) = Inr Undefined \<and>
            calls (snd (reset_send env socket email s)) =
              calls s @
                [User_reset_send email,
                 Events_log (Obj
                   [(''type'', Str ''password-reset''),
                    (''text'', Str ''[[success:success]]''),
                    (''ip'', Str (ip socket)),
                    (''uid'', Num (uid socket)),
                    (''email'', email)]),
                 Sleep 2500])"
  using assms
  by (simp add: reset_send_def logEvent_def internalErrors_def flow split: prod.splits sum.splits)

text \<open>
  Bob is rate-limited: one audit entry, a normal return. Carol's mail cannot be sent:
  the failure reaches the caller. Alice's request succeeds: one audit entry, then the
  cooldown.
\<close>

theorem reset_send_audit_and_swallow_witness:
  "fst (reset_send forum_env guest (Str ''bob@example.org'') forum_start) = Inr Undefined \<and>
   calls (snd (reset_send forum_env guest (Str ''bob@example.org'') forum_start)) =
     [User_reset_send (Str ''bob@example.org''),
      Events_log (Obj
        [(''type'', Str ''password-reset''),
         (''text'', Str ''[[error:reset-rate-limited]]''),
         (''ip'', Str ''203.0.113.9''),
         (''uid'', Num 0),
         (''email'', Str ''bob@example.org'')])] \<and>
   fst (reset_send forum_env guest (Str ''carol@example.org'') forum_start)
     = Inl (Error ''[[error:sendmail-not-found]]'') \<and>
   fst (reset_send forum_env guest (Str ''alice@example.org'') forum_start) = Inr Undefined \<and>
   calls (snd (reset_send forum_env guest (Str ''alice@example.org'') forum_start)) =
     [User_reset_send (Str ''alice@example.org''),
      Events_log (Obj
        [(''type'', Str ''password-reset''),
         (''text'', Str ''[[success:success]]''),
         (''ip'', Str ''203.0.113.9''),
         (''uid'', Num 0),
         (''email'', Str ''alice@example.org'')]),
      Sleep 2500]"
proof -
  have cfg: "\<not> truthy (meta_config forum_env (world forum_start) ''password:disableEdit'')"
    by (simp add: forum)
  have bob: "respond forum_env (User_reset_send (Str ''bob@example.org'')) (world forum_start)
      = (Inl (Error ''[[error:reset-rate-limited]]''), (world forum_start)\<lparr>ticks := 1\<rparr>)"
    and carol: "respond forum_env (User_reset_send (Str ''carol@example.org'')) (world forum_start)
      = (Inl (Error ''[[error:sendmail-not-found]]''), (world forum_start)\<lparr>ticks := 1\<rparr>)"
    and alice: "respond forum_env (User_reset_send (Str ''alice@example.org'')) (world forum_start)
      = (Inr Undefined, (world forum_start)\<lparr>ticks := 1\<rparr>)"
    by (simp_all add: forum)
  have logged: "\<And>entry. respond forum_env (Events_log entry) ((world forum_start)\<lparr>ticks := 1\<rparr>)
      = (Inr Undefined, (world forum_start)\<lparr>ticks := 2\<rparr>)"
    by (simp add: forum)
  note b = reset_send_audit_and_swallow
    [where email = "Str ''bob@example.org''" and env = forum_env and s = forum_start
       and socket = guest and err = "Error ''[[error:reset-rate-limited]]''"
       and ?w1.0 = "(world forum_start)\<lparr>ticks := 1\<rparr>" and x = Undefined
       and ?w2.0 = "(world forum_start)\<lparr>ticks := 2\<rparr>", OF _ cfg]
  note c = reset_send_audit_and_swallow
    [where email = "Str ''carol@example.org''" and env = forum_env and s = forum_start
       and socket = guest and err = "Error ''[[error:sendmail-not-found]]''"
       and ?w1.0 = "(world forum_start)\<lparr>ticks := 1\<rparr>" and x = Undefined
       and ?w2.0 = "(world forum_start)\<lparr>ticks := 2\<rparr>", OF _ cfg]
  note a = reset_send_audit_and_swallow
    [where email = "Str ''alice@example.org''" and env = forum_env and s = forum_start
       and socket = guest and y = Undefined
       and ?w1.0 = "(world forum_start)\<lparr>ticks := 1\<rparr>" and x = Undefined
       and ?w2.0 = "(world forum_start)\<lparr>ticks := 2\<rparr>", OF _ cfg]
  have 1: "fst (reset_send forum_env guest (Str ''bob@example.org'') forum_start) = Inr Undefined"
    using b [THEN conjunct2, THEN conjunct1] bob logged by simp
  have 2: "calls (snd (reset_send forum_env guest (Str ''bob@example.org'') forum_start)) =
     [User_reset_send (Str ''bob@example.org''),
      Events_log (Obj
        [(''type'', Str ''password-reset''),
         (''text'', Str ''[[error:reset-rate-limited]]''),
         (''ip'', Str ''203.0.113.9''),
         (''uid'', Num 0),
         (''email'', Str ''bob@example.org'')])]"
    using b [THEN conjunct1] bob by (simp add: forum_start_def guest_def)
  have 3: "fst (reset_send forum_env guest (Str ''carol@example.org'') forum_start)
     = Inl (Error ''[[error:sendmail-not-found]]'')"
    using c [THEN conjunct2, THEN conjunct1] carol logged by simp
  have 4: "fst (reset_send forum_env guest (Str ''alice@example.org'') forum_start) = Inr Undefined
    \<and> calls (snd (reset_send forum_env guest (Str ''alice@example.org'') forum_start)) =
     [User_reset_send (Str ''alice@example.org''),
      Events_log (Obj
        [(''type'', Str ''password-reset''),
         (''text'', Str ''[[success:success]]''),
         (''ip'', Str ''203.0.113.9''),
         (''uid'', Num 0),
         (''email'', Str ''alice@example.org'')]),
      Sleep 2500]"
    using a [THEN conjunct2, THEN conjunct2] alice logged by (simp add: forum_start_def guest_def)
  show ?thesis using 1 2 3 4 by (intro conjI) simp_all
qed

text \<open>
  C3 as stated fails while the event log cannot be written. An unknown address (an
  expected kind of failure) then surfaces the log's error instead of returning
  normally; and alice's successful issuance ends in the \<open>catch\<close> block, with two
  \<open>events.log\<close> calls and an error for the caller.
\<close>

theorem reset_send_log_failure_counterexample:
  "respond forum_env (User_reset_send (Str ''nobody@example.org'')) (world forum_log_down)
     = (Inl (Error ''[[error:invalid-email]]''), (world forum_log_down)\<lparr>ticks := 1\<rparr>) \<and>
   fst (reset_send forum_env guest (Str ''nobody@example.org'') forum_log_down)
     = Inl (Error ''[[error:db-unavailable]]'') \<and>
   reset_send forum_env guest (Str ''alice@example.org'') forum_log_down =
     (Inl (Error ''[[error:db-unavailable]]''),
      \<lparr>world = \<lparr>ticks = 3, confirm_emails = True, edit_disabled = False, log_down = True\<rparr>,
       calls =
         [User_reset_send (Str ''alice@example.org''),
          Events_log (Obj
            [(''type'', Str ''password-reset''),
             (''text'', Str ''[[success:success]]''),
             (''ip'', Str ''203.0.113.9''),
             (''uid'', Num 0),
             (''email'', Str ''alice@example.org'')]),
          Events_log (Obj
            [(''type'', Str ''password-reset''),
             (''text'', Str ''[[error:db-unavailable]]''),
             (''ip'', Str ''203.0.113.9''),
             (''uid'', Num 0),
             (''email'', Str ''alice@example.org'')])],
       warnings = []\<rparr>)"
  by (simp add: reset_send_def logEvent_def internalErrors_def flow forum forum_log_down_def)

subsection \<open>The cooldown of \<open>reset.send\<close>\<close>

text \<open>
  C2, what the code does. Let \<open>reset.send\<close> pass validation. When the issuance
  rejects, the handler issues no \<open>sleep\<close> at all: the sleeps among the calls are those
  that were there before. When the issuance and the success entry resolve, exactly one
  \<open>sleep(2500)\<close> is added. The cooldown stands in the \<open>try\<close> block only (line 87);
  the \<open>catch\<close> block (lines 88-94) has none.
\<close>

theorem reset_send_cooldown_only_after_success:
  assumes "truthy email"
    and "\<not> truthy (meta_config env (world s) ''password:disableEdit'')"
  shows "(respond env (User_reset_send email) (world s) = (Inl err, w1) \<longrightarrow>
            [c \<leftarrow> calls (snd (reset_send env socket email s)). \<exists>ms. c = Sleep ms] =
            [c \<leftarrow> calls s. \<exists>ms. c = Sleep ms]) \<and>
         (respond env (User_reset_send email) (world s) = (Inr y, w1) \<and>
          respond env (Events_log (Obj
             [(''type'', Str ''password-reset''),
              (''text'', Str ''[[success:success]]''),
              (''ip'', Str (ip socket)),
              (''uid'', Num (uid socket)),
              (''email'', email)])) w1 = (Inr x, w2) \<longrightarrow>
            [c \<leftarrow> calls (snd (reset_send env socket email s)). \<exists>ms. c = Sleep ms] =
            [c \<leftarrow> calls s. \<exists>ms. c = Sleep ms] @ [Sleep 2500])"
proof (intro conjI impI)
  assume "respond env (User_reset_send email) (world s) = (Inl err, w1)"
  with assms have "calls (snd (reset_send env socket email s)) =
      calls s @
        [User_reset_send email,
         Events_log (Obj
           [(''type'', Str ''password-reset''),
            (''text'', Str (message err)),
            (''ip'', Str (ip socket)),
            (''uid'', Num (uid socket)),
            (''email'', email)])]"
    by (simp add: reset_send_def logEvent_def flow split: prod.splits sum.splits)
  then show "[c \<leftarrow> calls (snd (reset_send env socket email s)). \<exists>ms. c = Sleep ms] =
      [c \<leftarrow> calls s. \<exists>ms. c = Sleep ms]"
    by simp
next
  assume "respond env (User_reset_send email) (world s) = (Inr y, w1) \<and>
    respond env (Events_log (Obj
       [(''type'', Str ''password-reset''),
        (''text'', Str ''[[success:success]]''),
        (''ip'', Str (ip socket)),
        (''uid'', Num (uid socket)),
        (''email'', email)])) w1 = (Inr x, w2)"
  with assms have "calls (snd (reset_send env socket email s)) =
      calls s @
        [User_reset_send email,
         Events_log (Obj
           [(''type'', Str ''password-reset''),
            (''text'', Str ''[[success:success]]''),
            (''ip'', Str (ip socket)),
            (''uid'', Num (uid socket)),
            (''email'', email)]),
         Sleep 2500]"
    by (simp add: reset_send_def logEvent_def flow split: prod.splits)
  then show "[c \<leftarrow> calls (snd (reset_send env socket email s)). \<exists>ms. c = Sleep ms] =
      [c \<leftarrow> calls s. \<exists>ms. c = Sleep ms] @ [Sleep 2500]"
    by simp
qed

text \<open>
  A reset for an unknown address returns normally after the issuance and the audit
  entry, without a cooldown; the reset for alice ends with \<open>sleep(2500)\<close>.
\<close>

theorem reset_send_cooldown_only_after_success_witness:
  "reset_send forum_env guest (Str ''nobody@example.org'') forum_start =
     (Inr Undefined,
      \<lparr>world = \<lparr>ticks = 2, confirm_emails = True, edit_disabled = False, log_down = False\<rparr>,
       calls =
         [User_reset_send (Str ''nobody@example.org''),
          Events_log (Obj
            [(''type'', Str ''password-reset''),
             (''text'', Str ''[[error:invalid-email]]''),
             (''ip'', Str ''203.0.113.9''),
             (''uid'', Num 0),
             (''email'', Str ''nobody@example.org'')])],
       warnings = []\<rparr>) \<and>
   [c \<leftarrow> calls (snd (reset_send forum_env guest (Str ''nobody@example.org'') forum_start)).
      \<exists>ms. c = Sleep ms] = [] \<and>
   [c \<leftarrow> calls (snd (reset_send forum_env guest (Str ''alice@example.org'') forum_start)).
      \<exists>ms. c = Sleep ms] = [Sleep 2500]"
proof -
  have cfg: "\<not> truthy (meta_config forum_env (world forum_start) ''password:disableEdit'')"
    by (simp add: forum)
  have nobody: "respond forum_env (User_reset_send (Str ''nobody@example.org'')) (world forum_start)
      = (Inl (Error ''[[error:invalid-email]]''), (world forum_start)\<lparr>ticks := 1\<rparr>)"
    and alice: "respond forum_env (User_reset_send (Str ''alice@example.org'')) (world forum_start)
      = (Inr Undefined, (world forum_start)\<lparr>ticks := 1\<rparr>)"
    by (simp_all add: forum)
  have logged: "\<And>entry. respond forum_env (Events_log entry) ((world forum_start)\<lparr>ticks := 1\<rparr>)
      = (Inr Undefined, (world forum_start)\<lparr>ticks := 2\<rparr>)"
    by (simp add: forum)
  have 1: "reset_send forum_env guest (Str ''nobody@example.org'') forum_start =
     (Inr Undefined,
      \<lparr>world = \<lparr>ticks = 2, confirm_emails = True, edit_disabled = False, log_down = False\<rparr>,
       calls =
         [User_reset_send (Str ''nobody@example.org''),
          Events_log (Obj
            [(''type'', Str ''password-reset''),
             (''text'', Str ''[[error:invalid-email]]''),
             (''ip'', Str ''203.0.113.9''),
             (''uid'', Num 0),
             (''email'', Str ''nobody@example.org'')])],
       warnings = []\<rparr>)"
    by (simp add: reset_send_def logEvent_def internalErrors_def flow forum)
  have 2: "[c \<leftarrow> calls (snd (reset_send forum_env guest (Str ''nobody@example.org'') forum_start)).
      \<exists>ms. c = Sleep ms] = []"
    using reset_send_cooldown_only_after_success
      [where email = "Str ''nobody@example.org''" and env = forum_env and s = forum_start
         and socket = guest, OF _ cfg, THEN conjunct1] nobody
    by (simp add: forum_start_def)
  have 3: "[c \<leftarrow> calls (snd (reset_send forum_env guest (Str ''alice@example.org'') forum_start)).
      \<exists>ms. c = Sleep ms] = [Sleep 2500]"
    using reset_send_cooldown_only_after_success
      [where email = "Str ''alice@example.org''" and env = forum_env and s = forum_start
         and socket = guest and y = Undefined and x = Undefined
         and ?w1.0 = "(world forum_start)\<lparr>ticks := 1\<rparr>"
         and ?w2.0 = "(world forum_start)\<lparr>ticks := 2\<rparr>", OF _ cfg, THEN conjunct2]
      alice logged
    by (simp add: forum_start_def guest_def)
  show ?thesis by (intro conjI 1 2 3)
qed

subsection \<open>What a guest session meets\<close>

text \<open>
  C1, as the code has it. For a guest (\<open>socket.uid = 0\<close>):
  \<^item> \<open>emailConfirm\<close> fails with \<open>NoPrivileges\<close> and \<open>setModerationNote\<close> fails with
    \<open>InvalidData\<close> (its first guard folds the session check into the validation of
    the payload), both with the run untouched;
  \<^item> \<open>getUnreadCount\<close> and \<open>getUnreadChatCount\<close> return 0 and \<open>getUnreadCounts\<close>
    returns the empty object, with the run untouched;
  \<^item> \<open>gdpr.consent\<close>, \<open>follow\<close>, \<open>unfollow\<close>, \<open>saveSettings\<close>, \<open>setTopicSort\<close>,
    \<open>setCategorySort\<close>, \<open>deleteAccount\<close> with an object payload and \<open>deleteUpload\<close>
    with a payload that holds a truthy \<open>name\<close> and \<open>uid\<close> check nothing about the
    session: each hands its one call, carrying uid 0, to the service behind it, and
    the run returned holds the state that call leaves, that one call, the
    deprecation warning where the handler has one and, as its result, the call's
    error or the handler's normal value;
  \<^item> \<open>deleteAccount\<close> with a payload that is not an object raises a \<open>TypeError\<close>
    after its warning, and \<open>deleteUpload\<close> with a falsy payload, \<open>name\<close> or \<open>uid\<close> fails
    with \<open>InvalidData\<close>; neither issues a call.
\<close>

theorem guest_session_outcomes:
  assumes "uid socket = 0"
  shows "emailConfirm env socket s = (Inl NoPrivileges, s) \<and>
         setModerationNote env socket data s = (Inl InvalidData, s) \<and>
         getUnreadCount env socket s = (Inr (Num 0), s) \<and>
         getUnreadChatCount env socket s = (Inr (Num 0), s) \<and>
         getUnreadCounts env socket s = (Inr (Obj []), s) \<and>
         gdpr_consent env socket s =
           (case respond env
              (User_setUserField 0 ''gdpr_consent'' (Num 1)) (world s) of
              (r, w) \<Rightarrow>
                (case r of Inl e \<Rightarrow> Inl e | Inr x \<Rightarrow> Inr Undefined,
                 s\<lparr>world := w,
                   calls := calls s @
                     [User_setUserField 0 ''gdpr_consent'' (Num 1)]\<rparr>)) \<and>
         follow env socket data s =
           (case respond env
              (Api_users_follow socket data) (world s) of
              (r, w) \<Rightarrow>
                (case r of Inl e \<Rightarrow> Inl e | Inr x \<Rightarrow> Inr Undefined,
                 s\<lparr>world := w,
                   calls := calls s @
                     [Api_users_follow socket data],
                   warnings := warnings s @ [''POST /api/v3/users/follow'']\<rparr>)) \<and>
         unfollow env socket data s =
           (case respond env
              (Api_users_unfollow socket data) (world s) of
              (r, w) \<Rightarrow>
                (case r of Inl e \<Rightarrow> Inl e | Inr x \<Rightarrow> Inr Undefined,
                 s\<lparr>world := w,
                   calls := calls s @
                     [Api_users_unfollow socket data],
                   warnings := warnings s @ [''DELETE /api/v3/users/unfollow'']\<rparr>)) \<and>
         saveSettings env socket data s =
           (case respond env
              (Api_users_updateSettings socket data) (world s) of
              (r, w) \<Rightarrow>
                (r,
                 s\<lparr>world := w,
                   calls := calls s @
                     [Api_users_updateSettings socket data],
                   warnings := warnings s @ [''PUT /api/v3/users/:uid/settings'']\<rparr>)) \<and>
         setTopicSort env socket data s =
           (case respond env
              (Api_users_updateSetting socket (Obj
                [(''uid'', Num 0), (''setting'', Str ''topicPostSort''), (''value'', data)])) (world s) of
              (r, w) \<Rightarrow>
                (case r of Inl e \<Rightarrow> Inl e | Inr x \<Rightarrow> Inr Undefined,
                 s\<lparr>world := w,
                   calls := calls s @
                     [Api_users_updateSetting socket (Obj
                        [(''uid'', Num 0), (''setting'', Str ''topicPostSort''), (''value'', data)])],
                   warnings := warnings s @ [''PUT /api/v3/users/:uid/setting/topicPostSort'']\<rparr>)) \<and>
         setCategorySort env socket data s =
           (case respond env
              (Api_users_updateSetting socket (Obj
                [(''uid'', Num 0), (''setting'', Str ''categoryTopicSort''), (''value'', data)])) (world s) of
              (r, w) \<Rightarrow>
                (case r of Inl e \<Rightarrow> Inl e | Inr x \<Rightarrow> Inr Undefined,
                 s\<lparr>world := w,
                   calls := calls s @
                     [Api_users_updateSetting socket (Obj
                        [(''uid'', Num 0), (''setting'', Str ''categoryTopicSort''), (''value'', data)])],
                   warnings := warnings s @ [''PUT /api/v3/users/:uid/setting/categoryTopicSort'']\<rparr>)) \<and>
         deleteAccount env socket (Obj fs) s =
           (case respond env
              (Api_users_deleteAccount socket (Obj (AList.update ''uid'' (Num 0) fs))) (world s) of
              (r, w) \<Rightarrow>
                (case r of Inl e \<Rightarrow> Inl e | Inr x \<Rightarrow> Inr Undefined,
                 s\<lparr>world := w,
                   calls := calls s @
                     [Api_users_deleteAccount socket (Obj (AList.update ''uid'' (Num 0) fs))],
                   warnings := warnings s @ [''DELETE /api/v3/users/:uid/account'']\<rparr>)) \<and>
         ((\<forall>fs. data \<noteq> Obj fs) \<longrightarrow>
           (\<exists>e. deleteAccount env socket data s =
              (Inl (TypeError e),
               s\<lparr>warnings := warnings s @ [''DELETE /api/v3/users/:uid/account'']\<rparr>))) \<and>
         (truthy data \<and> get_prop data ''name'' = Inr name \<and> truthy name \<and>
          get_prop data ''uid'' = Inr target \<and> truthy target \<longrightarrow>
           deleteUpload env socket data s =
             (case respond env
                (User_deleteUpload 0 target name) (world s) of
                (r, w) \<Rightarrow>
                  (case r of Inl e \<Rightarrow> Inl e | Inr x \<Rightarrow> Inr Undefined,
                   s\<lparr>world := w,
                     calls := calls s @
                       [User_deleteUpload 0 target name]\<rparr>))) \<and>
         (\<not> truthy data \<longrightarrow> deleteUpload env socket data s = (Inl InvalidData, s)) \<and>
         (truthy data \<and> get_prop data ''name'' = Inr name \<and> \<not> truthy name \<longrightarrow>
           deleteUpload env socket data s = (Inl InvalidData, s)) \<and>
         (truthy data \<and> get_prop data ''uid'' = Inr target \<and> \<not> truthy target \<longrightarrow>
           deleteUpload env socket data s = (Inl InvalidData, s))"
proof (intro conjI)
  show "emailConfirm env socket s = (Inl NoPrivileges, s)"
    using assms by (simp add: emailConfirm_def throw_def split: prod.splits sum.splits)
  show "setModerationNote env socket data s = (Inl InvalidData, s)"
    using assms by (simp add: setModerationNote_def throw_def split: prod.splits sum.splits)
  show "getUnreadCount env socket s = (Inr (Num 0), s)"
    using assms by (simp add: getUnreadCount_def resolve_def split: prod.splits sum.splits)
  show "getUnreadChatCount env socket s = (Inr (Num 0), s)"
    using assms by (simp add: getUnreadChatCount_def resolve_def split: prod.splits sum.splits)
  show "getUnreadCounts env socket s = (Inr (Obj []), s)"
    using assms by (simp add: getUnreadCounts_def resolve_def split: prod.splits sum.splits)
  show "gdpr_consent env socket s =
          (case respond env
             (User_setUserField 0 ''gdpr_consent'' (Num 1)) (world s) of
             (r, w) \<Rightarrow>
               (case r of Inl e \<Rightarrow> Inl e | Inr x \<Rightarrow> Inr Undefined,
                s\<lparr>world := w,
                  calls := calls s @
                    [User_setUserField 0 ''gdpr_consent'' (Num 1)]\<rparr>))"
    using assms by (simp add: gdpr_consent_def flow split: prod.splits sum.splits)
  show "follow env socket data s =
          (case respond env
             (Api_users_follow socket data) (world s) of
             (r, w) \<Rightarrow>
               (case r of Inl e \<Rightarrow> Inl e | Inr x \<Rightarrow> Inr Undefined,
                s\<lparr>world := w,
                  calls := calls s @
                    [Api_users_follow socket data],
                  warnings := warnings s @ [''POST /api/v3/users/follow'']\<rparr>))"
    using assms by (simp add: follow_def flow split: prod.splits sum.splits)
  show "unfollow env socket data s =
          (case respond env
             (Api_users_unfollow socket data) (world s) of
             (r, w) \<Rightarrow>
               (case r of Inl e \<Rightarrow> Inl e | Inr x \<Rightarrow> Inr Undefined,
                s\<lparr>world := w,
                  calls := calls s @
                    [Api_users_unfollow socket data],
                  warnings := warnings s @ [''DELETE /api/v3/users/unfollow'']\<rparr>))"
    using assms by (simp add: unfollow_def flow split: prod.splits sum.splits)
  show "saveSettings env socket data s =
          (case respond env
             (Api_users_updateSettings socket data) (world s) of
             (r, w) \<Rightarrow>
               (r,
                s\<lparr>world := w,
                  calls := calls s @
                    [Api_users_updateSettings socket data],
                  warnings := warnings s @ [''PUT /api/v3/users/:uid/settings'']\<rparr>))"
    using assms by (simp add: saveSettings_def flow split: prod.splits sum.splits)
  show "setTopicSort env socket data s =
          (case respond env
             (Api_users_updateSetting socket (Obj
               [(''uid'', Num 0), (''setting'', Str ''topicPostSort''), (''value'', data)])) (world s) of
             (r, w) \<Rightarrow>
               (case r of Inl e \<Rightarrow> Inl e | Inr x \<Rightarrow> Inr Undefined,
                s\<lparr>world := w,
                  calls := calls s @
                    [Api_users_updateSetting socket (Obj
                       [(''uid'', Num 0), (''setting'', Str ''topicPostSort''), (''value'', data)])],
                  warnings := warnings s @ [''PUT /api/v3/users/:uid/setting/topicPostSort'']\<rparr>))"
    using assms by (simp add: setTopicSort_def flow split: prod.splits sum.splits)
  show "setCategorySort env socket data s =
          (case respond env
             (Api_users_updateSetting socket (Obj
               [(''uid'', Num 0), (''setting'', Str ''categoryTopicSort''), (''value'', data)])) (world s) of
             (r, w) \<Rightarrow>
               (case r of Inl e \<Rightarrow> Inl e | Inr x \<Rightarrow> Inr Undefined,
                s\<lparr>world := w,
                  calls := calls s @
                    [Api_users_updateSetting socket (Obj
                       [(''uid'', Num 0), (''setting'', Str ''categoryTopicSort''), (''value'', data)])],
                  warnings := warnings s @ [''PUT /api/v3/users/:uid/setting/categoryTopicSort'']\<rparr>))"
    using assms by (simp add: setCategorySort_def flow split: prod.splits sum.splits)
  show "deleteAccount env socket (Obj fs) s =
          (case respond env
             (Api_users_deleteAccount socket (Obj (AList.update ''uid'' (Num 0) fs))) (world s) of
             (r, w) \<Rightarrow>
               (case r of Inl e \<Rightarrow> Inl e | Inr x \<Rightarrow> Inr Undefined,
                s\<lparr>world := w,
                  calls := calls s @
                    [Api_users_deleteAccount socket (Obj (AList.update ''uid'' (Num 0) fs))],
                  warnings := warnings s @ [''DELETE /api/v3/users/:uid/account'']\<rparr>))"
    using assms by (simp add: deleteAccount_def flow split: prod.splits sum.splits)
  show "(\<forall>fs. data \<noteq> Obj fs) \<longrightarrow>
          (\<exists>e. deleteAccount env socket data s =
             (Inl (TypeError e),
              s\<lparr>warnings := warnings s @ [''DELETE /api/v3/users/:uid/account'']\<rparr>))"
    by (cases data) (simp_all add: deleteAccount_def flow)
  show "truthy data \<and> get_prop data ''name'' = Inr name \<and> truthy name \<and>
        get_prop data ''uid'' = Inr target \<and> truthy target \<longrightarrow>
          deleteUpload env socket data s =
            (case respond env
               (User_deleteUpload 0 target name) (world s) of
               (r, w) \<Rightarrow>
                 (case r of Inl e \<Rightarrow> Inl e | Inr x \<Rightarrow> Inr Undefined,
                  s\<lparr>world := w,
                    calls := calls s @
                      [User_deleteUpload 0 target name]\<rparr>))"
    using assms by (simp add: deleteUpload_def flow split: prod.splits sum.splits)
  show "\<not> truthy data \<longrightarrow> deleteUpload env socket data s = (Inl InvalidData, s)"
    using assms by (simp add: deleteUpload_def throw_def split: prod.splits sum.splits)
  show "truthy data \<and> get_prop data ''name'' = Inr name \<and> \<not> truthy name \<longrightarrow>
          deleteUpload env socket data s = (Inl InvalidData, s)"
    using assms by (simp add: deleteUpload_def flow split: prod.splits sum.splits)
  show "truthy data \<and> get_prop data ''uid'' = Inr target \<and> \<not> truthy target \<longrightarrow>
          deleteUpload env socket data s = (Inl InvalidData, s)"
  proof
    assume a: "truthy data \<and> get_prop data ''uid'' = Inr target \<and> \<not> truthy target"
    then obtain name where "get_prop data ''name'' = Inr name"
      by (cases data) auto
    with a show "deleteUpload env socket data s = (Inl InvalidData, s)"
      by (simp add: deleteUpload_def flow)
  qed
qed

text \<open>
  A guest on the small forum: the two rejections and the three empty answers;
  \<open>gdpr.consent\<close>, \<open>follow\<close> and \<open>deleteUpload\<close> each move the forum one step with their
  one call; without a payload \<open>deleteAccount\<close> raises its \<open>TypeError\<close> and
  \<open>deleteUpload\<close> fails with \<open>InvalidData\<close>.
\<close>

theorem guest_session_outcomes_witness:
  "emailConfirm forum_env guest forum_start = (Inl NoPrivileges, forum_start) \<and>
   setModerationNote forum_env guest (Obj [(''uid'', Num 8), (''note'', Str ''spam'')]) forum_start
     = (Inl InvalidData, forum_start) \<and>
   getUnreadCount forum_env guest forum_start = (Inr (Num 0), forum_start) \<and>
   getUnreadChatCount forum_env guest forum_start = (Inr (Num 0), forum_start) \<and>
   getUnreadCounts forum_env guest forum_start = (Inr (Obj []), forum_start) \<and>
   gdpr_consent forum_env guest forum_start =
     (Inr Undefined,
      \<lparr>world = \<lparr>ticks = 1, confirm_emails = True, edit_disabled = False, log_down = False\<rparr>,
       calls = [User_setUserField 0 ''gdpr_consent'' (Num 1)],
       warnings = []\<rparr>) \<and>
   follow forum_env guest (Obj [(''uid'', Num 8), (''note'', Str ''spam'')]) forum_start =
     (Inr Undefined,
      \<lparr>world = \<lparr>ticks = 1, confirm_emails = True, edit_disabled = False, log_down = False\<rparr>,
       calls = [Api_users_follow guest (Obj [(''uid'', Num 8), (''note'', Str ''spam'')])],
       warnings = [''POST /api/v3/users/follow'']\<rparr>) \<and>
   (\<exists>e. deleteAccount forum_env guest Undefined forum_start =
     (Inl (TypeError e),
      forum_start\<lparr>warnings := [''DELETE /api/v3/users/:uid/account'']\<rparr>)) \<and>
   deleteUpload forum_env guest (Obj [(''uid'', Num 8), (''name'', Str ''files/cat.png'')]) forum_start =
     (Inr Undefined,
      \<lparr>world = \<lparr>ticks = 1, confirm_emails = True, edit_disabled = False, log_down = False\<rparr>,
       calls = [User_deleteUpload 0 (Num 8) (Str ''files/cat.png'')],
       warnings = []\<rparr>) \<and>
   deleteUpload forum_env guest Undefined forum_start = (Inl InvalidData, forum_start)"
proof -
  have g: "uid guest = 0"
    by (simp add: guest_def)
  note th = guest_session_outcomes
    [OF g, where env = forum_env and s = forum_start
       and data = "Obj [(''uid'', Num 8), (''note'', Str ''spam'')]"]
  note tu = guest_session_outcomes
    [OF g, where env = forum_env and s = forum_start and data = Undefined]
  note tf = guest_session_outcomes
    [OF g, where env = forum_env and s = forum_start
       and data = "Obj [(''uid'', Num 8), (''name'', Str ''files/cat.png'')]"
       and name = "Str ''files/cat.png''" and target = "Num 8"]
  have f1: "emailConfirm forum_env guest forum_start = (Inl NoPrivileges, forum_start)"
    by (rule th [THEN conjunct1])
  have f2: "setModerationNote forum_env guest (Obj [(''uid'', Num 8), (''note'', Str ''spam'')]) forum_start
        = (Inl InvalidData, forum_start)"
    by (rule th [THEN conjunct2, THEN conjunct1])
  have f3: "getUnreadCount forum_env guest forum_start = (Inr (Num 0), forum_start)"
    by (rule th [THEN conjunct2, THEN conjunct2, THEN conjunct1])
  have f4: "getUnreadChatCount forum_env guest forum_start = (Inr (Num 0), forum_start)"
    by (rule th [THEN conjunct2, THEN conjunct2, THEN conjunct2, THEN conjunct1])
  have f5: "getUnreadCounts forum_env guest forum_start = (Inr (Obj []), forum_start)"
    by (rule th [THEN conjunct2, THEN conjunct2, THEN conjunct2, THEN conjunct2,
            THEN conjunct1])
  have f6: "gdpr_consent forum_env guest forum_start =
        (Inr Undefined,
         \<lparr>world = \<lparr>ticks = 1, confirm_emails = True, edit_disabled = False, log_down = False\<rparr>,
          calls = [User_setUserField 0 ''gdpr_consent'' (Num 1)],
          warnings = []\<rparr>)"
    using th [THEN conjunct2, THEN conjunct2, THEN conjunct2, THEN conjunct2,
            THEN conjunct2, THEN conjunct1]
    by (simp add: forum)
  have f7: "follow forum_env guest (Obj [(''uid'', Num 8), (''note'', Str ''spam'')]) forum_start =
        (Inr Undefined,
         \<lparr>world = \<lparr>ticks = 1, confirm_emails = True, edit_disabled = False, log_down = False\<rparr>,
          calls = [Api_users_follow guest (Obj [(''uid'', Num 8), (''note'', Str ''spam'')])],
          warnings = [''POST /api/v3/users/follow'']\<rparr>)"
    using th [THEN conjunct2, THEN conjunct2, THEN conjunct2, THEN conjunct2,
            THEN conjunct2, THEN conjunct2, THEN conjunct1]
    by (simp add: forum)
  have f8: "\<exists>e. deleteAccount forum_env guest Undefined forum_start =
        (Inl (TypeError e),
         forum_start\<lparr>warnings := [''DELETE /api/v3/users/:uid/account'']\<rparr>)"
    using tu [THEN conjunct2, THEN conjunct2, THEN conjunct2, THEN conjunct2,
            THEN conjunct2, THEN conjunct2, THEN conjunct2, THEN conjunct2,
            THEN conjunct2, THEN conjunct2, THEN conjunct2, THEN conjunct2,
            THEN conjunct1]
    by (simp add: forum)
  have f9: "deleteUpload forum_env guest (Obj [(''uid'', Num 8), (''name'', Str ''files/cat.png'')]) forum_start =
        (Inr Undefined,
         \<lparr>world = \<lparr>ticks = 1, confirm_emails = True, edit_disabled = False, log_down = False\<rparr>,
          calls = [User_deleteUpload 0 (Num 8) (Str ''files/cat.png'')],
          warnings = []\<rparr>)"
    using tf [THEN conjunct2, THEN conjunct2, THEN conjunct2, THEN conjunct2,
            THEN conjunct2, THEN conjunct2, THEN conjunct2, THEN conjunct2,
            THEN conjunct2, THEN conjunct2, THEN conjunct2, THEN conjunct2,
            THEN conjunct2, THEN conjunct1]
    by (simp add: forum)
  have f10: "deleteUpload forum_env guest Undefined forum_start = (Inl InvalidData, forum_start)"
    using tu [THEN conjunct2, THEN conjunct2, THEN conjunct2, THEN conjunct2,
            THEN conjunct2, THEN conjunct2, THEN conjunct2, THEN conjunct2,
            THEN conjunct2, THEN conjunct2, THEN conjunct2, THEN conjunct2,
            THEN conjunct2, THEN conjunct2, THEN conjunct1]
    by (simp add: forum)
  show ?thesis
    by (intro conjI f1 f2 f3 f4 f5 f6 f7 f8 f9 f10)
qed

text \<open>
  C1 as stated fails for a guest: \<open>setModerationNote\<close> answers \<open>InvalidData\<close>, not
  \<open>NoPrivileges\<close>; \<open>gdpr.consent\<close> and \<open>deleteUpload\<close> are not rejected at all, they call
  \<open>user.setUserField\<close> and \<open>user.deleteUpload\<close> with uid 0 and return normally.
\<close>

theorem guest_session_counterexample:
  "setModerationNote forum_env guest (Obj [(''uid'', Num 8), (''note'', Str ''spam'')]) forum_start
     = (Inl InvalidData, forum_start) \<and>
   InvalidData \<noteq> NoPrivileges \<and>
   gdpr_consent forum_env guest forum_start =
     (Inr Undefined,
      \<lparr>world = \<lparr>ticks = 1, confirm_emails = True, edit_disabled = False, log_down = False\<rparr>,
       calls = [User_setUserField 0 ''gdpr_consent'' (Num 1)],
       warnings = []\<rparr>) \<and>
   deleteUpload forum_env guest (Obj [(''uid'', Num 8), (''name'', Str ''files/cat.png'')]) forum_start =
     (Inr Undefined,
      \<lparr>world = \<lparr>ticks = 1, confirm_emails = True, edit_disabled = False, log_down = False\<rparr>,
       calls = [User_deleteUpload 0 (Num 8) (Str ''files/cat.png'')],
       warnings = []\<rparr>)"
  by (simp add: setModerationNote_def gdpr_consent_def deleteUpload_def flow forum
      InvalidData_def NoPrivileges_def)

end
